theory Spec2Isabelle
  imports Main "HOL-Library.AList"
begin

section \<open>Dynamic values of the provider protocol (go-cty)\<close>

text \<open>
  Attribute payloads are \<^verbatim>\<open>cty.Value\<close>s of the external library go-cty.  The library is
  not part of the repository; the model keeps the part of it that the source calls:
  \<^verbatim>\<open>NullVal\<close>, \<^verbatim>\<open>UnknownVal\<close>, \<^verbatim>\<open>True\<close>, \<^verbatim>\<open>ObjectVal\<close>, \<^verbatim>\<open>Type\<close>, \<^verbatim>\<open>IsNull\<close>,
  \<^verbatim>\<open>CanIterateElements\<close> and \<^verbatim>\<open>AsValueMap\<close>.  A Go \<^verbatim>\<open>map[string]cty.Value\<close> is an
  association list with distinct keys; its order is the order in which \<^verbatim>\<open>range\<close> happens to
  visit the entries, and two maps have the same content when \<open>map_of\<close> agrees on them.
  Set and tuple values are left out.
\<close>

datatype cty_type =
    cty_Bool
  | cty_Number
  | cty_String
  | DynamicPseudoType
  | cty_List cty_type
  | cty_Map cty_type
  | cty_Object "(string \<times> cty_type) list"

datatype cty_value =
    NullVal cty_type
  | UnknownVal cty_type
  | BoolVal bool
  | NumberIntVal int
  | StringVal string
  | ListVal cty_type "cty_value list"
  | MapVal cty_type "(string \<times> cty_value) list"
  | ObjectVal "(string \<times> cty_value) list"

type_synonym value_map = "(string \<times> cty_value) list"

abbreviation cty_True :: cty_value where
  "cty_True \<equiv> BoolVal True"

primrec Type :: "cty_value \<Rightarrow> cty_type" where
  "Type (NullVal t) = t"
| "Type (UnknownVal t) = t"
| "Type (BoolVal b) = cty_Bool"
| "Type (NumberIntVal n) = cty_Number"
| "Type (StringVal s) = cty_String"
| "Type (ListVal t vs) = cty_List t"
| "Type (MapVal t kvs) = cty_Map t"
| "Type (ObjectVal kvs) = cty_Object (map (map_prod id Type) kvs)"

fun IsNull :: "cty_value \<Rightarrow> bool" where
  "IsNull (NullVal t) = True"
| "IsNull v = False"


text \<open>
  \<^verbatim>\<open>CanIterateElements\<close> looks at the type of the value only: list, map and object types
  can be iterated, every other type cannot.
\<close>

fun iterable_type :: "cty_type \<Rightarrow> bool" where
  "iterable_type (cty_List t) = True"
| "iterable_type (cty_Map t) = True"
| "iterable_type (cty_Object ats) = True"
| "iterable_type t = False"

definition CanIterateElements :: "cty_value \<Rightarrow> bool" where
  "CanIterateElements val = iterable_type (Type val)"

datatype panic = Panic

text \<open>
  \<^verbatim>\<open>AsValueMap\<close> returns the entries of a known, non-null object or map.  A value with no
  elements gives the nil map.  The library panics on a null or unknown value that has a
  length, and on the number keys of a list that is not empty.
\<close>

fun AsValueMap :: "cty_value \<Rightarrow> panic + value_map" where
  "AsValueMap (ObjectVal kvs) = Inr kvs"
| "AsValueMap (MapVal t kvs) = Inr kvs"
| "AsValueMap (ListVal t vs) = (if vs = [] then Inr [] else Inl Panic)"
| "AsValueMap (NullVal t) = (if t = cty_Object [] then Inr [] else Inl Panic)"
| "AsValueMap (UnknownVal t) = (if t = cty_Object [] then Inr [] else Inl Panic)"
| "AsValueMap v = Inl Panic"

section \<open>The force-destroy patch\<close>

text \<open>
  The body of the \<^verbatim>\<open>range\<close> loop of \<^verbatim>\<open>enableForceDestroyAttributes\<close>: one entry \<open>(k, v)\<close>
  of the state and the map \<^verbatim>\<open>stateWithDestroyAttrs\<close> built so far.
\<close>

fun forceDestroyEntry :: "string \<times> cty_value \<Rightarrow> value_map \<Rightarrow> value_map" where
  "forceDestroyEntry (k, v) stateWithDestroyAttrs =
     (if k = ''force_detach_policies'' \<or> k = ''force_destroy'' then
        (if Type v = cty_Bool then AList.update k cty_True stateWithDestroyAttrs
         else stateWithDestroyAttrs)
      else AList.update k v stateWithDestroyAttrs)"

fun forceDestroyLoop :: "value_map \<Rightarrow> value_map \<Rightarrow> value_map" where
  "forceDestroyLoop [] stateWithDestroyAttrs = stateWithDestroyAttrs"
| "forceDestroyLoop (kv # kvs) stateWithDestroyAttrs =
     forceDestroyLoop kvs (forceDestroyEntry kv stateWithDestroyAttrs)"

definition enableForceDestroyAttributes :: "cty_value \<Rightarrow> panic + cty_value" where
  "enableForceDestroyAttributes state =
     (if CanIterateElements state then
        (case AsValueMap state of
           Inl p \<Rightarrow> Inl p
         | Inr m \<Rightarrow> Inr (ObjectVal (forceDestroyLoop m [])))
      else Inr (ObjectVal []))"

definition forceDestroyNames :: "string set" where
  "forceDestroyNames = {''force_detach_policies'', ''force_destroy''}"

section \<open>Requests, responses and the plugin process\<close>

text \<open>
  The request and response structs of the provider protocol, with the fields the source
  reads or writes.  The field names of the Go structs repeat (\<^verbatim>\<open>TypeName\<close>,
  \<^verbatim>\<open>PriorState\<close>, \<^verbatim>\<open>Diagnostics\<close>); each record prefixes them with its own tag.
\<close>

datatype severity = Error | Warning

type_synonym diagnostics = "(severity \<times> string) list"

definition HasErrors :: "diagnostics \<Rightarrow> bool" where
  "HasErrors diags = list_ex (\<lambda>d. fst d = Error) diags"

type_synonym bytes = "nat list"

record ConfigureRequest =
  conf_Config :: cty_value

record ConfigureResponse =
  conf_Diagnostics :: diagnostics

record ImportResourceStateRequest =
  imp_TypeName :: string
  imp_ID :: string

record ImportedResource =
  TypeName :: string
  State :: cty_value
  Private :: bytes

record ImportResourceStateResponse =
  ImportedResources :: "ImportedResource list"
  imp_Diagnostics :: diagnostics

record ReadResourceRequest =
  read_TypeName :: string
  read_PriorState :: cty_value
  read_Private :: bytes

record ReadResourceResponse =
  read_NewState :: cty_value
  read_Diagnostics :: diagnostics
  read_ResponsePrivate :: bytes

record ApplyResourceChangeRequest =
  apply_TypeName :: string
  apply_PriorState :: cty_value
  apply_PlannedState :: cty_value
  apply_Config :: cty_value
  apply_PlannedPrivate :: bytes

record ApplyResourceChangeResponse =
  apply_NewState :: cty_value
  apply_Private :: bytes
  apply_Diagnostics :: diagnostics

text \<open>
  A launched plugin is a \<^verbatim>\<open>*plugin.GRPCProvider\<close>: a reference to the client of one child
  process.  Everything the program does to the outside world is written to a log of
  events, in order: installing a plugin, launching it, each call of the \<^verbatim>\<open>Provider\<close>
  interface with the reference it goes to, reading the state file, and each line printed
  on the standard output.  Log messages of logrus are not modelled.
\<close>

type_synonym GRPCProvider = nat

datatype event =
    InstallProviderCall string string
  | LaunchPlugin string bool
  | ConfigureCall GRPCProvider ConfigureRequest
  | ImportResourceStateCall GRPCProvider ImportResourceStateRequest
  | ReadResourceCall GRPCProvider ReadResourceRequest
  | ApplyResourceChangeCall GRPCProvider ApplyResourceChangeRequest
  | GetStateCall string
  | Stdout string

text \<open>
  The \<^verbatim>\<open>Provider\<close> interface.  The plugin is a process with a state of its own (the
  infrastructure behind it changes with every call), so each answer is a function of the
  events so far and of the request.
\<close>

record Provider =
  Configure_op :: "event list \<Rightarrow> ConfigureRequest \<Rightarrow> ConfigureResponse"
  ReadResource_op :: "event list \<Rightarrow> ReadResourceRequest \<Rightarrow> ReadResourceResponse"
  ApplyResourceChange_op ::
    "event list \<Rightarrow> ApplyResourceChangeRequest \<Rightarrow> ApplyResourceChangeResponse"
  ImportResourceState_op ::
    "event list \<Rightarrow> ImportResourceStateRequest \<Rightarrow> ImportResourceStateResponse"

record TerraformProvider =
  provider :: GRPCProvider

section \<open>The state snapshot\<close>

datatype ResourceMode = InvalidResourceMode | ManagedResourceMode | DataResourceMode

text \<open>
  An absolute resource instance address; \<^verbatim>\<open>resAddr.Resource.Resource.Mode\<close> and
  \<^verbatim>\<open>resAddr.Resource.Resource.Type\<close> are the fields \<open>Mode\<close> and \<open>res_Type\<close>.
\<close>

record AbsResourceInstance =
  Module :: "string list"
  Mode :: ResourceMode
  res_Type :: string
  Name :: string
  Key :: "string option"

text \<open>
  \<^verbatim>\<open>AttrsJSON\<close> is a byte string; the model holds what it parses to, \<open>None\<close> when the
  bytes are not valid JSON.
\<close>

datatype json =
    JNull
  | JBool bool
  | JNumber int
  | JString string
  | JArray "json list"
  | JObject "(string \<times> json) list"

record ResourceInstanceObjectSrc =
  AttrsJSON :: "json option"

record ResourceInstance =
  Current :: "ResourceInstanceObjectSrc option"

text \<open>\<^verbatim>\<open>state.ResourceInstance(addr)\<close> is \<open>None\<close> (nil) for an address the state does not have.\<close>

type_synonym states_State = "AbsResourceInstance \<Rightarrow> ResourceInstance option"

definition HasCurrent :: "ResourceInstance option \<Rightarrow> bool" where
  "HasCurrent rs = (case rs of None \<Rightarrow> False | Some r \<Rightarrow> Current r \<noteq> None)"

section \<open>Decoding the resource ID\<close>

record ResourceID =
  ID :: string

datatype go_error = SyntaxError | UnmarshalTypeError | NilPointerDereference

text \<open>
  \<^verbatim>\<open>json.Unmarshal\<close> into a \<^verbatim>\<open>ResourceID\<close> (encoding/json of the Go library).  The key of
  the one field, \<^verbatim>\<open>id\<close>, matches without regard to case.  A string sets the field, a
  \<^verbatim>\<open>null\<close> leaves it, any other value is a type error that is kept while decoding goes
  on; keys that match no field are skipped.
\<close>

definition matches_id :: "string \<Rightarrow> bool" where
  "matches_id k = (k = ''id'' \<or> k = ''ID'' \<or> k = ''Id'' \<or> k = ''iD'')"

fun unmarshal_fields ::
  "(string \<times> json) list \<Rightarrow> go_error option \<times> ResourceID \<Rightarrow> go_error option \<times> ResourceID" where
  "unmarshal_fields [] (err, r) = (err, r)"
| "unmarshal_fields ((k, v) # kvs) (err, r) =
     (if matches_id k then
        (case v of
           JString s \<Rightarrow> unmarshal_fields kvs (err, r\<lparr>ID := s\<rparr>)
         | JNull \<Rightarrow> unmarshal_fields kvs (err, r)
         | _ \<Rightarrow> unmarshal_fields kvs
                 (if err = None then Some UnmarshalTypeError else err, r))
      else unmarshal_fields kvs (err, r))"

fun Unmarshal :: "json option \<Rightarrow> ResourceID \<Rightarrow> go_error option \<times> ResourceID" where
  "Unmarshal None r = (Some SyntaxError, r)"
| "Unmarshal (Some JNull) r = (None, r)"
| "Unmarshal (Some (JObject kvs)) r = unmarshal_fields kvs (None, r)"
| "Unmarshal (Some j) r = (Some UnmarshalTypeError, r)"

definition getResourceID :: "ResourceInstance \<Rightarrow> go_error + string" where
  "getResourceID resInstance =
     (case Current resInstance of
        None \<Rightarrow> Inl NilPointerDereference
      | Some cur \<Rightarrow>
          (case Unmarshal (AttrsJSON cur) \<lparr>ID = ''''\<rparr> of
             (Some err, result) \<Rightarrow> Inl err
           | (None, result) \<Rightarrow> Inr (ID result)))"

section \<open>The environment of a run\<close>

text \<open>
  What a run gets from outside: the three flags as \<^verbatim>\<open>flag.Parse\<close> leaves them, and the
  answers of the collaborators.  \<^verbatim>\<open>InstallProvider\<close>, \<^verbatim>\<open>awsProviderConfig\<close>, \<^verbatim>\<open>getState\<close> and
  \<^verbatim>\<open>lookupAllResourceInstanceAddrs\<close> are called by \<^verbatim>\<open>mainExitCode\<close> and defined in no file
  at hand; \<open>providerFactory\<close> starts the child process and \<open>plugin\<close> is the process behind
  each reference.  An error value is its message.
\<close>

record PluginMeta =
  Path :: string

record Env =
  flag_dry :: bool
  flag_debug :: bool
  flag_state :: string
  InstallProvider :: "string \<Rightarrow> string \<Rightarrow> PluginMeta \<times> diagnostics \<times> string option"
  providerFactory :: "string \<Rightarrow> bool \<Rightarrow> string + GRPCProvider"
  plugin :: "GRPCProvider \<Rightarrow> Provider"
  awsProviderConfig :: cty_value
  getState :: "string \<Rightarrow> string + states_State"
  lookupAllResourceInstanceAddrs :: "states_State \<Rightarrow> AbsResourceInstance list \<times> diagnostics"

section \<open>The provider facade\<close>

definition newTerraformProvider ::
  "Env \<Rightarrow> string \<Rightarrow> bool \<Rightarrow> event list \<Rightarrow> (string + TerraformProvider) \<times> event list" where
  "newTerraformProvider E path logDebug tr =
     (case providerFactory E path logDebug of
        Inl err \<Rightarrow> (Inl err, tr @ [LaunchPlugin path logDebug])
      | Inr p \<Rightarrow> (Inr \<lparr>provider = p\<rparr>, tr @ [LaunchPlugin path logDebug]))"

definition configure ::
  "Env \<Rightarrow> TerraformProvider \<Rightarrow> cty_value \<Rightarrow> event list \<Rightarrow> diagnostics \<times> event list" where
  "configure E p config tr =
     (let req = \<lparr>conf_Config = config\<rparr>;
          respConf = Configure_op (plugin E (provider p)) tr req
      in (conf_Diagnostics respConf, tr @ [ConfigureCall (provider p) req]))"

definition ImportResource ::
  "Env \<Rightarrow> TerraformProvider \<Rightarrow> string \<Rightarrow> string \<Rightarrow> event list
     \<Rightarrow> ImportResourceStateResponse \<times> event list" where
  "ImportResource E p resType resID tr =
     (let req = \<lparr>imp_TypeName = resType, imp_ID = resID\<rparr>;
          response = ImportResourceState_op (plugin E (provider p)) tr req
      in (response, tr @ [ImportResourceStateCall (provider p) req]))"

definition ReadResource ::
  "Env \<Rightarrow> TerraformProvider \<Rightarrow> ImportedResource \<Rightarrow> event list
     \<Rightarrow> ReadResourceResponse \<times> event list" where
  "ReadResource E p r tr =
     (let req = \<lparr>read_TypeName = TypeName r, read_PriorState = State r,
                 read_Private = Private r\<rparr>;
          response = ReadResource_op (plugin E (provider p)) tr req
      in (response, tr @ [ReadResourceCall (provider p) req]))"

definition applyResourceChange ::
  "Env \<Rightarrow> TerraformProvider \<Rightarrow> string \<Rightarrow> ReadResourceResponse \<Rightarrow> event list
     \<Rightarrow> ApplyResourceChangeResponse \<times> event list" where
  "applyResourceChange E p resType readResp tr =
     (let req = \<lparr>apply_TypeName = resType,
                 apply_PriorState = read_NewState readResp,
                 apply_PlannedState = NullVal DynamicPseudoType,
                 apply_Config = NullVal DynamicPseudoType,
                 apply_PlannedPrivate = read_ResponsePrivate readResp\<rparr>;
          response = ApplyResourceChange_op (plugin E (provider p)) tr req
      in (response, tr @ [ApplyResourceChangeCall (provider p) req]))"

definition DeleteResource ::
  "Env \<Rightarrow> TerraformProvider \<Rightarrow> string \<Rightarrow> string \<Rightarrow> ReadResourceResponse \<Rightarrow> bool
     \<Rightarrow> event list \<Rightarrow> bool \<times> event list" where
  "DeleteResource E p resType resID readResp dryRun tr =
     (if dryRun then
        (True, tr @ [Stdout (''would try to delete resource (type='' @ resType @
                             '', id='' @ resID @ '')'' @ [CHR 0x0A])])
      else
        (case applyResourceChange E p resType readResp tr of
           (respApply, tr') \<Rightarrow>
             if HasErrors (apply_Diagnostics respApply) then (False, tr')
             else (True, tr' @ [Stdout (''finished deleting resource (type='' @ resType @
                                        '', id='' @ resID @ '')'' @ [CHR 0x0A])])))"

text \<open>
  \<^verbatim>\<open>destroy\<close>, the later form of the apply request: the prior state is patched first.  The
  request is sent only if the patch returns.
\<close>

definition destroy ::
  "Env \<Rightarrow> TerraformProvider \<Rightarrow> string \<Rightarrow> cty_value \<Rightarrow> event list
     \<Rightarrow> panic + ApplyResourceChangeResponse \<times> event list" where
  "destroy E p resType currentState tr =
     (case enableForceDestroyAttributes currentState of
        Inl pn \<Rightarrow> Inl pn
      | Inr patched \<Rightarrow>
          (let req = \<lparr>apply_TypeName = resType,
                      apply_PriorState = patched,
                      apply_PlannedState = NullVal DynamicPseudoType,
                      apply_Config = NullVal DynamicPseudoType,
                      apply_PlannedPrivate = []\<rparr>;
               response = ApplyResourceChange_op (plugin E (provider p)) tr req
           in Inr (response, tr @ [ApplyResourceChangeCall (provider p) req])))"

section \<open>The orchestrator\<close>

text \<open>
  The body of the inner loop of \<^verbatim>\<open>mainExitCode\<close>, for one imported resource; the state of
  the loop is \<^verbatim>\<open>deletedResourcesCount\<close> and the events so far.
\<close>

fun importedResourceBody ::
  "Env \<Rightarrow> TerraformProvider \<Rightarrow> string \<Rightarrow> string \<Rightarrow> ImportedResource
     \<Rightarrow> nat \<times> event list \<Rightarrow> nat \<times> event list" where
  "importedResourceBody E p resType resID resImp (deletedResourcesCount, tr) =
     (case ReadResource E p resImp tr of
        (readResp, tr1) \<Rightarrow>
          if HasErrors (read_Diagnostics readResp) then (deletedResourcesCount, tr1)
          else if IsNull (read_NewState readResp) then (deletedResourcesCount, tr1)
          else
            (case DeleteResource E p resType resID readResp (flag_dry E) tr1 of
               (deleted, tr2) \<Rightarrow>
                 if deleted then (deletedResourcesCount + 1, tr2)
                 else (deletedResourcesCount, tr2)))"

fun importedResourcesLoop ::
  "Env \<Rightarrow> TerraformProvider \<Rightarrow> string \<Rightarrow> string \<Rightarrow> ImportedResource list
     \<Rightarrow> nat \<times> event list \<Rightarrow> nat \<times> event list" where
  "importedResourcesLoop E p resType resID [] s = s"
| "importedResourcesLoop E p resType resID (resImp # rest) s =
     importedResourcesLoop E p resType resID rest
       (importedResourceBody E p resType resID resImp s)"

text \<open>
  The outer loop, over the addresses.  \<open>Inl\<close> is the \<^verbatim>\<open>return 1\<close> inside the loop, with the
  events up to it; \<open>Inr\<close> is the loop run to its end.
\<close>

fun resInstancesLoop ::
  "Env \<Rightarrow> TerraformProvider \<Rightarrow> states_State \<Rightarrow> AbsResourceInstance list
     \<Rightarrow> nat \<times> event list \<Rightarrow> event list + nat \<times> event list" where
  "resInstancesLoop E p state [] s = Inr s"
| "resInstancesLoop E p state (resAddr # rest) (deletedResourcesCount, tr) =
     (if HasCurrent (state resAddr) then
        (let resMode = Mode resAddr; resType = res_Type resAddr in
         case getResourceID (the (state resAddr)) of
           Inl err \<Rightarrow> Inl tr
         | Inr resID \<Rightarrow>
             if resMode \<noteq> ManagedResourceMode then
               resInstancesLoop E p state rest (deletedResourcesCount, tr)
             else
               (case ImportResource E p resType resID tr of
                  (importResp, tr1) \<Rightarrow>
                    if HasErrors (imp_Diagnostics importResp) then
                      resInstancesLoop E p state rest (deletedResourcesCount, tr1)
                    else
                      resInstancesLoop E p state rest
                        (importedResourcesLoop E p resType resID
                           (ImportedResources importResp) (deletedResourcesCount, tr1))))
      else resInstancesLoop E p state rest (deletedResourcesCount, tr))"

text \<open>
  The result of a run: the exit status, the number in the last log line
  (\<^verbatim>\<open>total number of resources deleted\<close>; \<open>None\<close> when the run ends before it) and the events.
  \<^verbatim>\<open>logrus.Fatal\<close> ends the process with status 1.
\<close>

record Run =
  exit_status :: int
  total_deleted :: "nat option"
  events :: "event list"

text \<open>
  \<^verbatim>\<open>mainExitCode\<close> in two parts.  \<open>startup\<close> is the function up to the loop: \<open>Inl\<close> is a run
  that ends there, \<open>Inr\<close> gives the loop the provider, the state, the addresses and the
  events so far.
\<close>

definition startup ::
  "Env \<Rightarrow> Run + TerraformProvider \<times> states_State \<times> AbsResourceInstance list \<times> event list" where
  "startup E =
     (let provider_name = ''aws'' in
      case InstallProvider E provider_name ''2.43.0'' of
        (metaPlugin, tfDiagnostics, err) \<Rightarrow>
          (let tr0 = [InstallProviderCall provider_name ''2.43.0''] in
           if HasErrors tfDiagnostics then
             Inl \<lparr>exit_status = 1, total_deleted = None, events = tr0\<rparr>
           else if err \<noteq> None then
             Inl \<lparr>exit_status = 1, total_deleted = None, events = tr0\<rparr>
           else
             (case newTerraformProvider E (Path metaPlugin) (flag_debug E) tr0 of
                (Inl err, tr1) \<Rightarrow>
                  Inl \<lparr>exit_status = 1, total_deleted = None, events = tr1\<rparr>
              | (Inr p, tr1) \<Rightarrow>
                  (case configure E p (awsProviderConfig E) tr1 of
                     (tfDiagnostics, tr2) \<Rightarrow>
                       if HasErrors tfDiagnostics then
                         Inl \<lparr>exit_status = 1, total_deleted = None, events = tr2\<rparr>
                       else
                         (let tr3 = tr2 @ [GetStateCall (flag_state E)] in
                          case getState E (flag_state E) of
                            Inl err \<Rightarrow>
                              Inl \<lparr>exit_status = 1, total_deleted = None, events = tr3\<rparr>
                          | Inr state \<Rightarrow>
                              (case lookupAllResourceInstanceAddrs E state of
                                 (resInstances, diagnostics) \<Rightarrow>
                                   if HasErrors diagnostics then
                                     Inl \<lparr>exit_status = 1, total_deleted = None,
                                          events = tr3\<rparr>
                                   else Inr (p, state, resInstances, tr3)))))))"

definition mainExitCode :: "Env \<Rightarrow> Run" where
  "mainExitCode E =
     (case startup E of
        Inl run \<Rightarrow> run
      | Inr (p, state, resInstances, tr3) \<Rightarrow>
          (case resInstancesLoop E p state resInstances (0, tr3) of
             Inl tr \<Rightarrow> \<lparr>exit_status = 1, total_deleted = None, events = tr\<rparr>
           | Inr (deletedResourcesCount, tr) \<Rightarrow>
               \<lparr>exit_status = 0, total_deleted = Some deletedResourcesCount,
                 events = tr\<rparr>))"

section \<open>Reading the events\<close>

fun import_calls :: "event list \<Rightarrow> (GRPCProvider \<times> ImportResourceStateRequest) list" where
  "import_calls [] = []"
| "import_calls (ImportResourceStateCall h req # evs) = (h, req) # import_calls evs"
| "import_calls (ev # evs) = import_calls evs"

fun read_calls :: "event list \<Rightarrow> (GRPCProvider \<times> ReadResourceRequest) list" where
  "read_calls [] = []"
| "read_calls (ReadResourceCall h req # evs) = (h, req) # read_calls evs"
| "read_calls (ev # evs) = read_calls evs"

fun apply_calls :: "event list \<Rightarrow> (GRPCProvider \<times> ApplyResourceChangeRequest) list" where
  "apply_calls [] = []"
| "apply_calls (ApplyResourceChangeCall h req # evs) = (h, req) # apply_calls evs"
| "apply_calls (ev # evs) = apply_calls evs"

fun stdout_lines :: "event list \<Rightarrow> string list" where
  "stdout_lines [] = []"
| "stdout_lines (Stdout l # evs) = l # stdout_lines evs"
| "stdout_lines (ev # evs) = stdout_lines evs"

fun install_calls :: "event list \<Rightarrow> (string \<times> string) list" where
  "install_calls [] = []"
| "install_calls (InstallProviderCall name constraint # evs) =
     (name, constraint) # install_calls evs"
| "install_calls (ev # evs) = install_calls evs"

fun launches :: "event list \<Rightarrow> (string \<times> bool) list" where
  "launches [] = []"
| "launches (LaunchPlugin path dbg # evs) = (path, dbg) # launches evs"
| "launches (ev # evs) = launches evs"

fun configure_calls :: "event list \<Rightarrow> (GRPCProvider \<times> ConfigureRequest) list" where
  "configure_calls [] = []"
| "configure_calls (ConfigureCall h req # evs) = (h, req) # configure_calls evs"
| "configure_calls (ev # evs) = configure_calls evs"

text \<open>The plugin reference an event goes to, for the calls of the \<^verbatim>\<open>Provider\<close> interface.\<close>

fun handle_of :: "event \<Rightarrow> GRPCProvider option" where
  "handle_of (ConfigureCall h req) = Some h"
| "handle_of (ImportResourceStateCall h req) = Some h"
| "handle_of (ReadResourceCall h req) = Some h"
| "handle_of (ApplyResourceChangeCall h req) = Some h"
| "handle_of ev = None"


text \<open>
  The import request the loop sends for an address: its type and the ID decoded from its
  current object.
\<close>

definition import_request ::
  "states_State \<Rightarrow> AbsResourceInstance \<Rightarrow> ImportResourceStateRequest" where
  "import_request state resAddr =
     \<lparr>imp_TypeName = res_Type resAddr,
      imp_ID = (case getResourceID (the (state resAddr)) of
                  Inl err \<Rightarrow> [] | Inr resID \<Rightarrow> resID)\<rparr>"

text \<open>
  \<open>extends_by p tr tr' k imps\<close>: the events \<open>tr'\<close> are \<open>tr\<close> and then some more, which
  print \<open>k\<close> lines, send the import requests \<open>imps\<close>, install, launch and configure
  nothing, and call no plugin but the one of \<open>p\<close>.
\<close>

definition extends_by ::
  "TerraformProvider \<Rightarrow> event list \<Rightarrow> event list \<Rightarrow> nat
     \<Rightarrow> (GRPCProvider \<times> ImportResourceStateRequest) list \<Rightarrow> bool" where
  "extends_by p tr tr' k imps =
     (\<exists>evs. tr' = tr @ evs \<and> length (stdout_lines evs) = k \<and> import_calls evs = imps \<and>
            install_calls evs = [] \<and> launches evs = [] \<and> configure_calls evs = [] \<and>
            (\<forall>ev \<in> set evs. handle_of ev = None \<or> handle_of ev = Some (provider p)))"

text \<open>The managed instances with a current object: those the loop sends an import for.\<close>

definition attempted :: "states_State \<Rightarrow> AbsResourceInstance \<Rightarrow> bool" where
  "attempted state resAddr =
     (HasCurrent (state resAddr) \<and> Mode resAddr = ManagedResourceMode)"

definition bad_id :: "states_State \<Rightarrow> AbsResourceInstance \<Rightarrow> bool" where
  "bad_id state resAddr =
     (HasCurrent (state resAddr) \<and> isl (getResourceID (the (state resAddr))))"

section \<open>A small deployment\<close>

text \<open>
  A plugin and a state to run the program on.  The plugin knows buckets by their ID:
  importing \<open>x\<close> fails, reading \<open>g\<close> finds it gone, every other bucket is read back as it
  was imported, and applying a change succeeds.
\<close>

definition bucket :: "string \<Rightarrow> cty_value" where
  "bucket resID = ObjectVal [(''id'', StringVal resID), (''force_destroy'', BoolVal False)]"

definition s3_plugin :: Provider where
  "s3_plugin =
     \<lparr>Configure_op = (\<lambda>tr req. \<lparr>conf_Diagnostics = []\<rparr>),
      ReadResource_op = (\<lambda>tr req.
        if read_PriorState req = bucket ''g'' then
          \<lparr>read_NewState = NullVal (cty_Object [(''id'', cty_String), (''force_destroy'', cty_Bool)]),
           read_Diagnostics = [], read_ResponsePrivate = []\<rparr>
        else
          \<lparr>read_NewState = read_PriorState req, read_Diagnostics = [],
           read_ResponsePrivate = read_Private req\<rparr>),
      ApplyResourceChange_op = (\<lambda>tr req.
        \<lparr>apply_NewState = NullVal DynamicPseudoType, apply_Private = [],
         apply_Diagnostics = []\<rparr>),
      ImportResourceState_op = (\<lambda>tr req.
        if imp_ID req = ''x'' then
          \<lparr>ImportedResources = [], imp_Diagnostics = [(Error, ''cannot import'')]\<rparr>
        else
          \<lparr>ImportedResources =
             [\<lparr>TypeName = imp_TypeName req, State = bucket (imp_ID req), Private = []\<rparr>],
           imp_Diagnostics = []\<rparr>)\<rparr>"

definition s3_addr :: "ResourceMode \<Rightarrow> string \<Rightarrow> AbsResourceInstance" where
  "s3_addr m n = \<lparr>Module = [], Mode = m, res_Type = ''aws_s3_bucket'', Name = n, Key = None\<rparr>"

definition with_attrs :: "json option \<Rightarrow> ResourceInstance option" where
  "with_attrs j = Some \<lparr>Current = Some \<lparr>AttrsJSON = j\<rparr>\<rparr>"

text \<open>
  The state \<open>two_buckets\<close> has the managed buckets \<open>a\<close> (ID \<open>x\<close>, which cannot be imported)
  and \<open>b\<close> (ID \<open>b\<close>); the state \<open>data_source_state\<close> has one data source whose attributes
  are not JSON.
\<close>

definition two_buckets :: states_State where
  "two_buckets resAddr =
     (if Name resAddr = ''a'' then with_attrs (Some (JObject [(''id'', JString ''x'')]))
      else if Name resAddr = ''b'' then with_attrs (Some (JObject [(''id'', JString ''b'')]))
      else None)"

definition data_source_state :: states_State where
  "data_source_state resAddr = (if Name resAddr = ''d'' then with_attrs None else None)"

definition s3_env :: Env where
  "s3_env =
     \<lparr>flag_dry = False, flag_debug = False, flag_state = ''terraform.tfstate'',
      InstallProvider = (\<lambda>name constraint. (\<lparr>Path = ''.terradozer/aws''\<rparr>, [], None)),
      providerFactory = (\<lambda>path logDebug. Inr 1),
      plugin = (\<lambda>h. s3_plugin),
      awsProviderConfig = ObjectVal [(''region'', StringVal ''us-west-2'')],
      getState = (\<lambda>path. Inr two_buckets),
      lookupAllResourceInstanceAddrs = (\<lambda>state.
        ([s3_addr ManagedResourceMode ''a'', s3_addr ManagedResourceMode ''b''], []))\<rparr>"

definition data_source_env :: Env where
  "data_source_env =
     s3_env\<lparr>getState := (\<lambda>path. Inr data_source_state),
            lookupAllResourceInstanceAddrs := (\<lambda>state. ([s3_addr DataResourceMode ''d''], []))\<rparr>"

definition no_state_env :: Env where
  "no_state_env = s3_env\<lparr>getState := (\<lambda>path. Inl ''no such file or directory'')\<rparr>"

text \<open>
  Variations of the deployment: a dry run; an installer that finds no plugin; a plugin
  that finds every bucket gone; a state whose one bucket has no \<open>id\<close> attribute; and the
  state \<open>three_instances\<close>, which is \<open>two_buckets\<close> with the data source \<open>d\<close> between the
  two buckets.
\<close>

definition dry_env :: Env where
  "dry_env = s3_env\<lparr>flag_dry := True\<rparr>"

definition no_install_env :: Env where
  "no_install_env =
     s3_env\<lparr>InstallProvider :=
       (\<lambda>name constraint. (\<lparr>Path = []\<rparr>, [], Some ''no provider exists with the given name''))\<rparr>"

definition gone_plugin :: Provider where
  "gone_plugin =
     s3_plugin\<lparr>ReadResource_op := (\<lambda>tr req.
       \<lparr>read_NewState = NullVal (Type (read_PriorState req)), read_Diagnostics = [],
        read_ResponsePrivate = read_Private req\<rparr>)\<rparr>"

definition gone_env :: Env where
  "gone_env = s3_env\<lparr>plugin := (\<lambda>h. gone_plugin)\<rparr>"

definition no_id_state :: states_State where
  "no_id_state resAddr =
     (if Name resAddr = ''n'' then with_attrs (Some (JObject [(''bucket'', JString ''b'')]))
      else None)"

definition no_id_env :: Env where
  "no_id_env =
     s3_env\<lparr>getState := (\<lambda>path. Inr no_id_state),
            lookupAllResourceInstanceAddrs := (\<lambda>state. ([s3_addr ManagedResourceMode ''n''], []))\<rparr>"

definition three_instances :: states_State where
  "three_instances resAddr =
     (if Name resAddr = ''d'' then with_attrs None else two_buckets resAddr)"

definition mixed_env :: Env where
  "mixed_env =
     s3_env\<lparr>getState := (\<lambda>path. Inr three_instances),
            lookupAllResourceInstanceAddrs := (\<lambda>state.
              ([s3_addr ManagedResourceMode ''a'', s3_addr DataResourceMode ''d'',
                s3_addr ManagedResourceMode ''b''], []))\<rparr>"

section \<open>The patch, entry by entry\<close>

lemma map_of_forceDestroyEntry:
  "map_of (forceDestroyEntry (k, v) acc) k' =
     (if k' = k then
        (if k \<in> forceDestroyNames then
           (if Type v = cty_Bool then Some cty_True else map_of acc k')
         else Some v)
      else map_of acc k')"
  by (simp add: forceDestroyNames_def update_conv')

lemma map_of_forceDestroyLoop:
  "distinct (map fst kvs) \<Longrightarrow>
   map_of (forceDestroyLoop kvs acc) k =
     (case map_of kvs k of
        None \<Rightarrow> map_of acc k
      | Some v \<Rightarrow>
          if k \<in> forceDestroyNames then
            (if Type v = cty_Bool then Some cty_True else map_of acc k)
          else Some v)"
proof (induction kvs arbitrary: acc)
  case Nil
  show ?case by simp
next
  case (Cons kv kvs)
  obtain k0 v0 where kv: "kv = (k0, v0)" by (cases kv)
  from Cons.prems kv have d: "distinct (map fst kvs)" and notin: "k0 \<notin> fst ` set kvs"
    by auto
  from notin have none: "map_of kvs k0 = None"
    by (simp add: map_of_eq_None_iff)
  show ?case
  proof (cases "k = k0")
    case True
    then show ?thesis
      using Cons.IH [OF d, of "forceDestroyEntry (k0, v0) acc"] none kv
      by (simp add: map_of_forceDestroyEntry split: option.split del: forceDestroyEntry.simps)
  next
    case False
    then show ?thesis
      using Cons.IH [OF d, of "forceDestroyEntry (k0, v0) acc"] kv
      by (simp add: map_of_forceDestroyEntry split: option.split del: forceDestroyEntry.simps)
  qed
qed

lemma distinct_forceDestroyEntry:
  "distinct (map fst acc) \<Longrightarrow> distinct (map fst (forceDestroyEntry kv acc))"
  by (cases kv) (simp add: distinct_update)

lemma distinct_forceDestroyLoop:
  "distinct (map fst acc) \<Longrightarrow> distinct (map fst (forceDestroyLoop kvs acc))"
  by (induction kvs arbitrary: acc) (simp_all add: distinct_forceDestroyEntry del: forceDestroyEntry.simps)

lemma enableForceDestroyAttributes_ObjectVal:
  "enableForceDestroyAttributes (ObjectVal kvs) = Inr (ObjectVal (forceDestroyLoop kvs []))"
  by (simp add: enableForceDestroyAttributes_def CanIterateElements_def)

section \<open>What each operation adds to the events\<close>

lemma import_calls_append: "import_calls (xs @ ys) = import_calls xs @ import_calls ys"
  by (induction xs rule: import_calls.induct) simp_all

lemma read_calls_append: "read_calls (xs @ ys) = read_calls xs @ read_calls ys"
  by (induction xs rule: read_calls.induct) simp_all

lemma apply_calls_append: "apply_calls (xs @ ys) = apply_calls xs @ apply_calls ys"
  by (induction xs rule: apply_calls.induct) simp_all

lemma stdout_lines_append: "stdout_lines (xs @ ys) = stdout_lines xs @ stdout_lines ys"
  by (induction xs rule: stdout_lines.induct) simp_all

lemma install_calls_append: "install_calls (xs @ ys) = install_calls xs @ install_calls ys"
  by (induction xs rule: install_calls.induct) simp_all

lemma launches_append: "launches (xs @ ys) = launches xs @ launches ys"
  by (induction xs rule: launches.induct) simp_all

lemma configure_calls_append:
  "configure_calls (xs @ ys) = configure_calls xs @ configure_calls ys"
  by (induction xs rule: configure_calls.induct) simp_all

lemmas calls_append =
  import_calls_append read_calls_append apply_calls_append stdout_lines_append
  install_calls_append launches_append configure_calls_append

lemma extends_by_refl: "extends_by p tr tr 0 []"
  by (simp add: extends_by_def)

lemma extends_by_trans:
  assumes "extends_by p tr tr1 k1 i1" and "extends_by p tr1 tr2 k2 i2"
  shows "extends_by p tr tr2 (k1 + k2) (i1 @ i2)"
proof -
  from assms(1) obtain e1 where e1: "tr1 = tr @ e1" "length (stdout_lines e1) = k1"
    "import_calls e1 = i1" "install_calls e1 = []" "launches e1 = []"
    "configure_calls e1 = []"
    "\<forall>ev \<in> set e1. handle_of ev = None \<or> handle_of ev = Some (provider p)"
    unfolding extends_by_def by blast
  from assms(2) obtain e2 where e2: "tr2 = tr1 @ e2" "length (stdout_lines e2) = k2"
    "import_calls e2 = i2" "install_calls e2 = []" "launches e2 = []"
    "configure_calls e2 = []"
    "\<forall>ev \<in> set e2. handle_of ev = None \<or> handle_of ev = Some (provider p)"
    unfolding extends_by_def by blast
  have "tr2 = tr @ (e1 @ e2)" using e1(1) e2(1) by simp
  moreover have "length (stdout_lines (e1 @ e2)) = k1 + k2"
    using e1(2) e2(2) by (simp add: calls_append)
  moreover have "import_calls (e1 @ e2) = i1 @ i2"
    using e1(3) e2(3) by (simp add: calls_append)
  moreover have "install_calls (e1 @ e2) = []" "launches (e1 @ e2) = []"
    "configure_calls (e1 @ e2) = []"
    using e1 e2 by (simp_all add: calls_append)
  moreover have "\<forall>ev \<in> set (e1 @ e2). handle_of ev = None \<or> handle_of ev = Some (provider p)"
    using e1(7) e2(7) by auto
  ultimately show ?thesis unfolding extends_by_def by blast
qed

lemma ReadResource_events:
  "snd (ReadResource E p r tr) =
     tr @ [ReadResourceCall (provider p)
             \<lparr>read_TypeName = TypeName r, read_PriorState = State r, read_Private = Private r\<rparr>]"
  by (simp add: ReadResource_def Let_def)

lemma ReadResource_extends: "extends_by p tr (snd (ReadResource E p r tr)) 0 []"
  by (simp add: ReadResource_events extends_by_def)

lemma ImportResource_events:
  "snd (ImportResource E p resType resID tr) =
     tr @ [ImportResourceStateCall (provider p) \<lparr>imp_TypeName = resType, imp_ID = resID\<rparr>]"
  by (simp add: ImportResource_def Let_def)

lemma ImportResource_extends:
  "extends_by p tr (snd (ImportResource E p resType resID tr)) 0
     [(provider p, \<lparr>imp_TypeName = resType, imp_ID = resID\<rparr>)]"
  by (simp add: ImportResource_events extends_by_def)

lemma applyResourceChange_events:
  "snd (applyResourceChange E p resType readResp tr) =
     tr @ [ApplyResourceChangeCall (provider p)
             \<lparr>apply_TypeName = resType,
              apply_PriorState = read_NewState readResp,
              apply_PlannedState = NullVal DynamicPseudoType,
              apply_Config = NullVal DynamicPseudoType,
              apply_PlannedPrivate = read_ResponsePrivate readResp\<rparr>]"
  by (simp add: applyResourceChange_def Let_def)

lemma DeleteResource_extends:
  "extends_by p tr (snd (DeleteResource E p resType resID readResp dryRun tr))
     (if fst (DeleteResource E p resType resID readResp dryRun tr) then 1 else 0) []"
proof (cases dryRun)
  case True
  then show ?thesis by (simp add: DeleteResource_def extends_by_def)
next
  case False
  obtain respApply tr' where ap: "applyResourceChange E p resType readResp tr = (respApply, tr')"
    by (cases "applyResourceChange E p resType readResp tr")
  from applyResourceChange_events [of E p resType readResp tr] ap
  obtain req where tr': "tr' = tr @ [ApplyResourceChangeCall (provider p) req]"
    by simp
  show ?thesis
  proof (cases "HasErrors (apply_Diagnostics respApply)")
    case True
    then have "DeleteResource E p resType resID readResp dryRun tr = (False, tr')"
      using False ap by (simp add: DeleteResource_def)
    then show ?thesis using tr' by (simp add: extends_by_def)
  next
    case noerr: False
    then obtain l where "DeleteResource E p resType resID readResp dryRun tr =
        (True, tr' @ [Stdout l])"
      using False ap by (simp add: DeleteResource_def)
    then show ?thesis using tr' by (simp add: extends_by_def)
  qed
qed

lemma DeleteResource_dry:
  "DeleteResource E p resType resID readResp True tr =
     (True, tr @ [Stdout (''would try to delete resource (type='' @ resType @
                          '', id='' @ resID @ '')'' @ [CHR 0x0A])])"
  by (simp add: DeleteResource_def)

lemma importedResourceBody_extends:
  "\<exists>k. fst (importedResourceBody E p resType resID resImp (n, tr)) = n + k \<and>
       extends_by p tr (snd (importedResourceBody E p resType resID resImp (n, tr))) k []"
proof -
  obtain readResp tr1 where rd: "ReadResource E p resImp tr = (readResp, tr1)"
    by (cases "ReadResource E p resImp tr")
  have e1: "extends_by p tr tr1 0 []"
    using ReadResource_extends [of p tr E resImp] rd by simp
  show ?thesis
  proof (cases "HasErrors (read_Diagnostics readResp) \<or> IsNull (read_NewState readResp)")
    case True
    then have "importedResourceBody E p resType resID resImp (n, tr) = (n, tr1)"
      using rd by auto
    then show ?thesis using e1 by (intro exI [of _ 0]) simp
  next
    case False
    obtain deleted tr2 where
      dl: "DeleteResource E p resType resID readResp (flag_dry E) tr1 = (deleted, tr2)"
      by (cases "DeleteResource E p resType resID readResp (flag_dry E) tr1")
    have e2: "extends_by p tr1 tr2 (if deleted then 1 else 0) []"
      using DeleteResource_extends [of p tr1 E resType resID readResp "flag_dry E"] dl
      by simp
    have e: "extends_by p tr tr2 (if deleted then 1 else 0) []"
      using extends_by_trans [OF e1 e2] by simp
    have "importedResourceBody E p resType resID resImp (n, tr) =
            (n + (if deleted then 1 else 0), tr2)"
      using rd dl False by simp
    then show ?thesis using e by (intro exI [of _ "if deleted then 1 else 0"]) simp
  qed
qed

lemma importedResourcesLoop_extends:
  "\<exists>k. fst (importedResourcesLoop E p resType resID imps (n, tr)) = n + k \<and>
       extends_by p tr (snd (importedResourcesLoop E p resType resID imps (n, tr))) k []"
proof (induction imps arbitrary: n tr)
  case Nil
  show ?case by (simp add: extends_by_refl)
next
  case (Cons resImp rest)
  obtain n1 tr1 where b: "importedResourceBody E p resType resID resImp (n, tr) = (n1, tr1)"
    by (cases "importedResourceBody E p resType resID resImp (n, tr)")
  from importedResourceBody_extends [of E p resType resID resImp n tr] b
  obtain k1 where k1: "n1 = n + k1" "extends_by p tr tr1 k1 []" by auto
  from Cons.IH [of n1 tr1]
  obtain k2 where k2:
    "fst (importedResourcesLoop E p resType resID rest (n1, tr1)) = n1 + k2"
    "extends_by p tr1 (snd (importedResourcesLoop E p resType resID rest (n1, tr1))) k2 []"
    by auto
  have "extends_by p tr (snd (importedResourcesLoop E p resType resID rest (n1, tr1)))
          (k1 + k2) []"
    using extends_by_trans [OF k1(2) k2(2)] by simp
  then show ?case
    using b k1(1) k2(1) by (intro exI [of _ "k1 + k2"]) (simp del: importedResourceBody.simps)
qed


lemma resInstancesLoop_no_current:
  "\<not> HasCurrent (state a) \<Longrightarrow>
   resInstancesLoop E p state (a # rest) (n, tr) = resInstancesLoop E p state rest (n, tr)"
  by simp

lemma resInstancesLoop_bad_id:
  "HasCurrent (state a) \<Longrightarrow> getResourceID (the (state a)) = Inl err \<Longrightarrow>
   resInstancesLoop E p state (a # rest) (n, tr) = Inl tr"
  by simp

lemma resInstancesLoop_not_managed:
  "HasCurrent (state a) \<Longrightarrow> getResourceID (the (state a)) = Inr resID \<Longrightarrow>
   Mode a \<noteq> ManagedResourceMode \<Longrightarrow>
   resInstancesLoop E p state (a # rest) (n, tr) = resInstancesLoop E p state rest (n, tr)"
  by simp

lemma resInstancesLoop_managed:
  "HasCurrent (state a) \<Longrightarrow> getResourceID (the (state a)) = Inr resID \<Longrightarrow>
   Mode a = ManagedResourceMode \<Longrightarrow>
   resInstancesLoop E p state (a # rest) (n, tr) =
     (let r = ImportResource E p (res_Type a) resID tr in
      if HasErrors (imp_Diagnostics (fst r)) then
        resInstancesLoop E p state rest (n, snd r)
      else
        resInstancesLoop E p state rest
          (importedResourcesLoop E p (res_Type a) resID (ImportedResources (fst r)) (n, snd r)))"
  by (simp add: Let_def split: prod.splits)

lemma managed_step_extends:
  assumes "HasCurrent (state a)" and "getResourceID (the (state a)) = Inr resID"
    and "Mode a = ManagedResourceMode"
  shows "\<exists>k tr1. resInstancesLoop E p state (a # rest) (n, tr) =
            resInstancesLoop E p state rest (n + k, tr1) \<and>
          extends_by p tr tr1 k [(provider p, import_request state a)]"
proof -
  let ?r = "ImportResource E p (res_Type a) resID tr"
  have req: "import_request state a = \<lparr>imp_TypeName = res_Type a, imp_ID = resID\<rparr>"
    using assms(2) by (simp add: import_request_def)
  have e1: "extends_by p tr (snd ?r) 0 [(provider p, import_request state a)]"
    using ImportResource_extends [of p tr E "res_Type a" resID] req by simp
  show ?thesis
  proof (cases "HasErrors (imp_Diagnostics (fst ?r))")
    case True
    then have "resInstancesLoop E p state (a # rest) (n, tr) =
                 resInstancesLoop E p state rest (n + 0, snd ?r)"
      using resInstancesLoop_managed [where state = state and a = a and resID = resID and E = E and p = p and rest = rest and n = n and tr = tr] assms by (simp add: Let_def)
    then show ?thesis using e1 by blast
  next
    case False
    let ?s = "importedResourcesLoop E p (res_Type a) resID (ImportedResources (fst ?r))
                (n, snd ?r)"
    from importedResourcesLoop_extends
      [of E p "res_Type a" resID "ImportedResources (fst ?r)" n "snd ?r"]
    obtain k where k: "fst ?s = n + k" "extends_by p (snd ?r) (snd ?s) k []" by blast
    have e: "extends_by p tr (snd ?s) k [(provider p, import_request state a)]"
      using extends_by_trans [OF e1 k(2)] by simp
    have "resInstancesLoop E p state (a # rest) (n, tr) =
            resInstancesLoop E p state rest ?s"
      using resInstancesLoop_managed [where state = state and a = a and resID = resID and E = E and p = p and rest = rest and n = n and tr = tr] assms False
      by (simp add: Let_def)
    also have "?s = (n + k, snd ?s)" using k(1) by (metis prod.collapse)
    finally show ?thesis using e by blast
  qed
qed

lemma resInstancesLoop_completes:
  "\<forall>a \<in> set addrs. \<not> bad_id state a \<Longrightarrow>
   \<exists>k tr'. resInstancesLoop E p state addrs (n, tr) = Inr (n + k, tr') \<and>
     extends_by p tr tr' k
       (map (\<lambda>a. (provider p, import_request state a)) (filter (attempted state) addrs))"
proof (induction addrs arbitrary: n tr)
  case Nil
  show ?case by (simp add: extends_by_refl)
next
  case (Cons a rest)
  from Cons.prems have rest_ok: "\<forall>a \<in> set rest. \<not> bad_id state a"
    and a_ok: "\<not> bad_id state a" by simp_all
  show ?case
  proof (cases "HasCurrent (state a)")
    case False
    then have "\<not> attempted state a" by (simp add: attempted_def)
    then show ?thesis
      using Cons.IH [OF rest_ok, of n tr] resInstancesLoop_no_current [where state = state and a = a and E = E and p = p and rest = rest and n = n and tr = tr] False
      by simp
  next
    case True
    with a_ok obtain resID where rid: "getResourceID (the (state a)) = Inr resID"
      by (cases "getResourceID (the (state a))") (simp_all add: bad_id_def)
    show ?thesis
    proof (cases "Mode a = ManagedResourceMode")
      case False
      then have "\<not> attempted state a" by (simp add: attempted_def)
      then show ?thesis
        using Cons.IH [OF rest_ok, of n tr]
          resInstancesLoop_not_managed [where state = state and a = a and resID = resID and E = E and p = p and rest = rest and n = n and tr = tr] True rid False
        by simp
    next
      case managed: True
      then have att: "attempted state a" using True by (simp add: attempted_def)
      from managed_step_extends [where state = state and a = a and resID = resID and E = E and p = p and rest = rest and n = n and tr = tr, OF True rid managed]
      obtain k1 tr1 where s1: "resInstancesLoop E p state (a # rest) (n, tr) =
            resInstancesLoop E p state rest (n + k1, tr1)"
        and e1: "extends_by p tr tr1 k1 [(provider p, import_request state a)]"
        by blast
      from Cons.IH [OF rest_ok, of "n + k1" tr1]
      obtain k2 tr2 where s2: "resInstancesLoop E p state rest (n + k1, tr1) =
            Inr (n + k1 + k2, tr2)"
        and e2: "extends_by p tr1 tr2 k2
           (map (\<lambda>a. (provider p, import_request state a)) (filter (attempted state) rest))"
        by blast
      have "extends_by p tr tr2 (k1 + k2)
           (map (\<lambda>a. (provider p, import_request state a)) (filter (attempted state) (a # rest)))"
        using extends_by_trans [OF e1 e2] att by simp
      moreover have "resInstancesLoop E p state (a # rest) (n, tr) = Inr (n + (k1 + k2), tr2)"
        using s1 s2 by (simp add: add.assoc)
      ultimately show ?thesis by blast
    qed
  qed
qed

lemma resInstancesLoop_aborts:
  "\<exists>a \<in> set addrs. bad_id state a \<Longrightarrow>
   \<exists>tr' k imps. resInstancesLoop E p state addrs (n, tr) = Inl tr' \<and>
      extends_by p tr tr' k imps"
proof (induction addrs arbitrary: n tr)
  case Nil
  then show ?case by simp
next
  case (Cons a rest)
  show ?case
  proof (cases "bad_id state a")
    case True
    then obtain err where "HasCurrent (state a)" "getResourceID (the (state a)) = Inl err"
      by (cases "getResourceID (the (state a))") (simp_all add: bad_id_def)
    then have "resInstancesLoop E p state (a # rest) (n, tr) = Inl tr"
      by simp
    then show ?thesis using extends_by_refl [of p tr] by blast
  next
    case False
    with Cons.prems have rest_bad: "\<exists>a \<in> set rest. bad_id state a" by simp
    show ?thesis
    proof (cases "HasCurrent (state a)")
      case nc: False
      then show ?thesis
        using Cons.IH [OF rest_bad, of n tr] resInstancesLoop_no_current [where state = state and a = a and E = E and p = p and rest = rest and n = n and tr = tr] nc
        by simp
    next
      case True
      with False obtain resID where rid: "getResourceID (the (state a)) = Inr resID"
        by (cases "getResourceID (the (state a))") (simp_all add: bad_id_def)
      show ?thesis
      proof (cases "Mode a = ManagedResourceMode")
        case nm: False
        then show ?thesis
          using Cons.IH [OF rest_bad, of n tr]
            resInstancesLoop_not_managed [where state = state and a = a and resID = resID and E = E and p = p and rest = rest and n = n and tr = tr] True rid nm
          by simp
      next
        case managed: True
        from managed_step_extends [where state = state and a = a and resID = resID and E = E and p = p and rest = rest and n = n and tr = tr, OF True rid managed]
        obtain k1 tr1 where s1: "resInstancesLoop E p state (a # rest) (n, tr) =
              resInstancesLoop E p state rest (n + k1, tr1)"
          and e1: "extends_by p tr tr1 k1 [(provider p, import_request state a)]"
          by blast
        from Cons.IH [OF rest_bad, of "n + k1" tr1]
        obtain tr2 k2 imps where s2: "resInstancesLoop E p state rest (n + k1, tr1) = Inl tr2"
          and e2: "extends_by p tr1 tr2 k2 imps"
          by blast
        show ?thesis using s1 s2 extends_by_trans [OF e1 e2] by metis
      qed
    qed
  qed
qed

section \<open>The run up to the loop\<close>

lemma startup_Inr:
  assumes "startup E = Inr (p, state, resInstances, tr3)"
  shows "tr3 = [InstallProviderCall ''aws'' ''2.43.0'',
                LaunchPlugin (Path (fst (InstallProvider E ''aws'' ''2.43.0''))) (flag_debug E),
                ConfigureCall (provider p) \<lparr>conf_Config = awsProviderConfig E\<rparr>,
                GetStateCall (flag_state E)]"
    and "providerFactory E (Path (fst (InstallProvider E ''aws'' ''2.43.0''))) (flag_debug E) =
           Inr (provider p)"
    and "getState E (flag_state E) = Inr state"
    and "fst (lookupAllResourceInstanceAddrs E state) = resInstances"
  using assms
  by (auto simp: startup_def newTerraformProvider_def configure_def Let_def
      split: prod.splits sum.splits if_splits)

lemma startup_Inr_installed:
  assumes "startup E = Inr (p, state, resInstances, tr3)"
  shows "\<not> HasErrors (fst (snd (InstallProvider E ''aws'' ''2.43.0'')))"
    and "snd (snd (InstallProvider E ''aws'' ''2.43.0'')) = None"
  using assms
  by (auto simp: startup_def newTerraformProvider_def configure_def Let_def
      split: prod.splits sum.splits if_splits)

lemma startup_Inl:
  assumes "startup E = Inl run"
  shows "exit_status run = 1 \<and> total_deleted run = None \<and>
         install_calls (events run) = [(''aws'', ''2.43.0'')] \<and>
         length (launches (events run)) \<le> 1 \<and>
         length (configure_calls (events run)) \<le> 1 \<and>
         import_calls (events run) = [] \<and> read_calls (events run) = [] \<and>
         apply_calls (events run) = [] \<and> stdout_lines (events run) = [] \<and>
         (\<forall>ev \<in> set (events run). \<forall>ev' \<in> set (events run).
            handle_of ev \<noteq> None \<and> handle_of ev' \<noteq> None \<longrightarrow> handle_of ev = handle_of ev') \<and>
         (GetStateCall (flag_state E) \<in> set (events run) \<longrightarrow>
            length (launches (events run)) = 1 \<and> length (configure_calls (events run)) = 1)"
  using assms
  by (auto simp: startup_def newTerraformProvider_def configure_def Let_def
      split: prod.splits sum.splits if_splits)

lemma startup_Inl_calls:
  assumes "startup E = Inl run"
  shows "launches (events run) =
           (if HasErrors (fst (snd (InstallProvider E ''aws'' ''2.43.0''))) \<or>
               snd (snd (InstallProvider E ''aws'' ''2.43.0'')) \<noteq> None then []
            else [(Path (fst (InstallProvider E ''aws'' ''2.43.0'')), flag_debug E)])"
    and "configure_calls (events run) =
           (if HasErrors (fst (snd (InstallProvider E ''aws'' ''2.43.0''))) \<or>
               snd (snd (InstallProvider E ''aws'' ''2.43.0'')) \<noteq> None then []
            else case providerFactory E (Path (fst (InstallProvider E ''aws'' ''2.43.0'')))
                        (flag_debug E) of
                   Inl e \<Rightarrow> []
                 | Inr h \<Rightarrow> [(h, \<lparr>conf_Config = awsProviderConfig E\<rparr>)])"
    and "\<forall>ev \<in> set (events run). \<forall>h. handle_of ev = Some h \<longrightarrow>
           providerFactory E (Path (fst (InstallProvider E ''aws'' ''2.43.0''))) (flag_debug E) =
             Inr h"
  using assms
  by (auto simp: startup_def newTerraformProvider_def configure_def Let_def
      split: prod.splits sum.splits if_splits)

lemma startup_no_state:
  assumes "getState E (flag_state E) = Inl err"
  shows "\<exists>run. startup E = Inl run"
  using assms
  by (auto simp: startup_def newTerraformProvider_def configure_def Let_def
      split: prod.splits sum.splits if_splits)

section \<open>Properties that every iteration keeps\<close>


lemma importedResourcesLoop_keeps:
  assumes body: "\<And>resImp s. g (importedResourceBody E p resType resID resImp s) = g s"
  shows "g (importedResourcesLoop E p resType resID imps s) = g s"
proof (induction imps arbitrary: s)
  case Nil
  show ?case by simp
next
  case (Cons resImp rest)
  show ?case
    using Cons.IH [of "importedResourceBody E p resType resID resImp s"] body [of resImp s]
    by simp
qed

lemma resInstancesLoop_keeps:
  assumes body:
      "\<And>resType resID resImp s. g (importedResourceBody E p resType resID resImp s) = g s"
    and imp: "\<And>resType resID n tr. g (n, snd (ImportResource E p resType resID tr)) = g (n, tr)"
  shows "case resInstancesLoop E p state addrs (n, tr) of
           Inl tr' \<Rightarrow> \<exists>n'. g (n', tr') = g (n, tr)
         | Inr s' \<Rightarrow> g s' = g (n, tr)"
proof (induction addrs arbitrary: n tr)
  case Nil
  show ?case by simp
next
  case (Cons a rest)
  show ?case
  proof (cases "HasCurrent (state a)")
    case False
    have step: "resInstancesLoop E p state (a # rest) (n, tr) =
                  resInstancesLoop E p state rest (n, tr)"
      using False by simp
    show ?thesis unfolding step by (rule Cons.IH)
  next
    case True
    show ?thesis
    proof (cases "getResourceID (the (state a))")
      case (Inl err)
      then have step: "resInstancesLoop E p state (a # rest) (n, tr) = Inl tr"
        using True by simp
      show ?thesis unfolding step by auto
    next
      case (Inr resID)
      show ?thesis
      proof (cases "Mode a = ManagedResourceMode")
        case False
        have step: "resInstancesLoop E p state (a # rest) (n, tr) =
                      resInstancesLoop E p state rest (n, tr)"
          using False True Inr by simp
        show ?thesis unfolding step by (rule Cons.IH)
      next
        case managed: True
        let ?r = "ImportResource E p (res_Type a) resID tr"
        have i: "g (n, snd ?r) = g (n, tr)" by (rule imp)
        show ?thesis
        proof (cases "HasErrors (imp_Diagnostics (fst ?r))")
          case True
          then have step: "resInstancesLoop E p state (a # rest) (n, tr) =
                       resInstancesLoop E p state rest (n, snd ?r)"
            using resInstancesLoop_managed [where state = state and a = a and resID = resID
                and E = E and p = p and rest = rest and n = n and tr = tr]
              \<open>HasCurrent (state a)\<close> Inr managed
            by (simp add: Let_def)
          show ?thesis unfolding step using Cons.IH [of n "snd ?r"] i
            by (auto split: sum.splits)
        next
          case False
          let ?s = "importedResourcesLoop E p (res_Type a) resID (ImportedResources (fst ?r))
                      (n, snd ?r)"
          have step: "resInstancesLoop E p state (a # rest) (n, tr) =
                  resInstancesLoop E p state rest (fst ?s, snd ?s)"
            using resInstancesLoop_managed [where state = state and a = a and resID = resID
                and E = E and p = p and rest = rest and n = n and tr = tr]
              \<open>HasCurrent (state a)\<close> Inr managed False
            by (simp add: Let_def)
          have k: "g (fst ?s, snd ?s) = g (n, tr)"
            using importedResourcesLoop_keeps [where g = g, OF body] i by simp
          show ?thesis unfolding step using Cons.IH [of "fst ?s" "snd ?s"] k
            by (auto split: sum.splits)
        qed
      qed
    qed
  qed
qed

text \<open>
  The body of the inner loop when no change is applied (a dry run, or a plugin that finds
  every resource gone), and the count of a run that is not dry.
\<close>

lemma importedResourceBody_no_apply:
  assumes "flag_dry E \<or>
     (\<forall>tr req. IsNull (read_NewState (ReadResource_op (plugin E (provider p)) tr req)))"
  shows "apply_calls (snd (importedResourceBody E p resType resID resImp s)) =
           apply_calls (snd s)"
  using assms
  by (cases s) (auto simp: ReadResource_def DeleteResource_def Let_def calls_append)

lemma importedResourceBody_gone:
  assumes "\<forall>tr req. IsNull (read_NewState (ReadResource_op (plugin E (provider p)) tr req))"
  shows "fst (importedResourceBody E p resType resID resImp s) = fst s \<and>
         stdout_lines (snd (importedResourceBody E p resType resID resImp s)) =
           stdout_lines (snd s)"
  using assms
  by (cases s) (auto simp: ReadResource_def Let_def calls_append)


lemma resInstancesLoop_skips:
  "resInstancesLoop E p state addrs s =
   resInstancesLoop E p state
     (filter (\<lambda>a. Mode a = ManagedResourceMode \<or> bad_id state a) addrs) s"
proof (induction addrs arbitrary: s)
  case Nil
  show ?case by simp
next
  case (Cons a rest)
  obtain n tr where s: "s = (n, tr)" by (cases s)
  show ?case
  proof (cases "Mode a = ManagedResourceMode \<or> bad_id state a")
    case True
    then show ?thesis
      using Cons.IH s
      by (simp add: Let_def split: sum.splits prod.splits)
  next
    case False
    then have m: "Mode a \<noteq> ManagedResourceMode" and b: "\<not> bad_id state a" by simp_all
    have "resInstancesLoop E p state (a # rest) (n, tr) = resInstancesLoop E p state rest (n, tr)"
    proof (cases "HasCurrent (state a)")
      case False
      then show ?thesis by simp
    next
      case True
      with b obtain resID where "getResourceID (the (state a)) = Inr resID"
        by (cases "getResourceID (the (state a))") (simp_all add: bad_id_def)
      with True m show ?thesis by simp
    qed
    then show ?thesis using Cons.IH [of s] s False by simp
  qed
qed

section \<open>Whole runs\<close>

lemma run_completes:
  assumes "startup E = Inr (p, state, resInstances, tr3)"
    and "\<forall>a \<in> set resInstances. \<not> bad_id state a"
  shows "\<exists>k tr'. mainExitCode E = \<lparr>exit_status = 0, total_deleted = Some k, events = tr'\<rparr> \<and>
           extends_by p tr3 tr' k
             (map (\<lambda>a. (provider p, import_request state a))
                (filter (attempted state) resInstances))"
proof -
  from resInstancesLoop_completes [OF assms(2), of E p 0 tr3]
  obtain k tr' where l: "resInstancesLoop E p state resInstances (0, tr3) = Inr (k, tr')"
    and e: "extends_by p tr3 tr' k
             (map (\<lambda>a. (provider p, import_request state a))
                (filter (attempted state) resInstances))"
    by auto
  have "mainExitCode E = \<lparr>exit_status = 0, total_deleted = Some k, events = tr'\<rparr>"
    using assms(1) l by (simp add: mainExitCode_def)
  with e show ?thesis by blast
qed

lemma run_aborts:
  assumes "startup E = Inr (p, state, resInstances, tr3)"
    and "\<exists>a \<in> set resInstances. bad_id state a"
  shows "\<exists>tr' k imps. mainExitCode E = \<lparr>exit_status = 1, total_deleted = None, events = tr'\<rparr> \<and>
           extends_by p tr3 tr' k imps"
proof -
  from resInstancesLoop_aborts [OF assms(2), of E p 0 tr3]
  obtain tr' k imps where l: "resInstancesLoop E p state resInstances (0, tr3) = Inl tr'"
    and e: "extends_by p tr3 tr' k imps"
    by blast
  have "mainExitCode E = \<lparr>exit_status = 1, total_deleted = None, events = tr'\<rparr>"
    using assms(1) l by (simp add: mainExitCode_def)
  with e show ?thesis by blast
qed

lemma run_events:
  assumes "startup E = Inr (p, state, resInstances, tr3)"
  shows "\<exists>k imps. extends_by p tr3 (events (mainExitCode E)) k imps"
proof (cases "\<exists>a \<in> set resInstances. bad_id state a")
  case True
  from run_aborts [OF assms True] show ?thesis by force
next
  case False
  then have "\<forall>a \<in> set resInstances. \<not> bad_id state a" by simp
  from run_completes [OF assms this] show ?thesis by force
qed

lemma run_no_apply:
  assumes "flag_dry E \<or>
     (\<forall>h tr req. IsNull (read_NewState (ReadResource_op (plugin E h) tr req)))"
  shows "apply_calls (events (mainExitCode E)) = []"
proof (cases "startup E")
  case (Inl run)
  then show ?thesis using startup_Inl [OF Inl] by (simp add: mainExitCode_def)
next
  case (Inr x)
  then obtain p state resInstances tr3 where
    st: "startup E = Inr (p, state, resInstances, tr3)"
    by (cases x) auto
  have a: "flag_dry E \<or>
     (\<forall>tr req. IsNull (read_NewState (ReadResource_op (plugin E (provider p)) tr req)))"
    using assms by blast
  have t3: "apply_calls tr3 = []" using startup_Inr(1) [OF st] by simp
  from resInstancesLoop_keeps [where g = "\<lambda>s. apply_calls (snd s)" and E = E and p = p
      and state = state and addrs = resInstances and n = 0 and tr = tr3]
    importedResourceBody_no_apply [OF a] t3 st
  show ?thesis
    by (auto simp: mainExitCode_def ImportResource_events calls_append split: sum.splits)
qed

lemma run_gone:
  assumes st: "startup E = Inr (p, state, resInstances, tr3)"
    and gone: "\<forall>tr req. IsNull (read_NewState (ReadResource_op (plugin E (provider p)) tr req))"
  shows "stdout_lines (events (mainExitCode E)) = [] \<and>
         (total_deleted (mainExitCode E) = None \<or> total_deleted (mainExitCode E) = Some 0)"
proof -
  have t3: "stdout_lines tr3 = []" using startup_Inr(1) [OF st] by simp
  from resInstancesLoop_keeps [where g = "\<lambda>s. (fst s, stdout_lines (snd s))" and E = E and p = p
      and state = state and addrs = resInstances and n = 0 and tr = tr3]
    importedResourceBody_gone [OF gone] t3 st
  show ?thesis
    by (auto simp: mainExitCode_def ImportResource_events calls_append split: sum.splits)
qed


lemma run_provider_calls:
  "install_calls (events (mainExitCode E)) = [(''aws'', ''2.43.0'')] \<and>
   launches (events (mainExitCode E)) =
     (if HasErrors (fst (snd (InstallProvider E ''aws'' ''2.43.0''))) \<or>
         snd (snd (InstallProvider E ''aws'' ''2.43.0'')) \<noteq> None then []
      else [(Path (fst (InstallProvider E ''aws'' ''2.43.0'')), flag_debug E)]) \<and>
   configure_calls (events (mainExitCode E)) =
     (if HasErrors (fst (snd (InstallProvider E ''aws'' ''2.43.0''))) \<or>
         snd (snd (InstallProvider E ''aws'' ''2.43.0'')) \<noteq> None then []
      else case providerFactory E (Path (fst (InstallProvider E ''aws'' ''2.43.0'')))
                  (flag_debug E) of
             Inl e \<Rightarrow> []
           | Inr h \<Rightarrow> [(h, \<lparr>conf_Config = awsProviderConfig E\<rparr>)]) \<and>
   (\<forall>ev \<in> set (events (mainExitCode E)). \<forall>h. handle_of ev = Some h \<longrightarrow>
      providerFactory E (Path (fst (InstallProvider E ''aws'' ''2.43.0''))) (flag_debug E) =
        Inr h)"
proof (cases "startup E")
  case (Inl run)
  then have m: "mainExitCode E = run" by (simp add: mainExitCode_def)
  show ?thesis
    unfolding m using startup_Inl [OF Inl] startup_Inl_calls [OF Inl] by simp
next
  case (Inr x)
  then obtain p state resInstances tr3 where
    st: "startup E = Inr (p, state, resInstances, tr3)"
    by (cases x) auto
  from run_events [OF st] obtain k imps evs where
    ev: "events (mainExitCode E) = tr3 @ evs" "install_calls evs = []" "launches evs = []"
      "configure_calls evs = []"
      "\<forall>ev \<in> set evs. handle_of ev = None \<or> handle_of ev = Some (provider p)"
    unfolding extends_by_def by blast
  note t3 = startup_Inr [OF st] startup_Inr_installed [OF st]
  have "\<forall>ev \<in> set (tr3 @ evs). \<forall>h. handle_of ev = Some h \<longrightarrow> h = provider p"
    using ev(5) t3(1) by auto
  then show ?thesis
    unfolding ev(1) using ev(2-4) t3 by (simp add: calls_append)
qed

section \<open>Decoding, field by field\<close>



section \<open>The small deployment, run\<close>

lemmas run_defs = startup_def mainExitCode_def newTerraformProvider_def configure_def
  ImportResource_def ReadResource_def applyResourceChange_def DeleteResource_def HasErrors_def
  HasCurrent_def getResourceID_def matches_id_def Let_def

lemmas s3_defs = s3_env_def s3_plugin_def s3_addr_def with_attrs_def two_buckets_def
  data_source_state_def data_source_env_def no_state_env_def bucket_def dry_env_def
  no_install_env_def gone_plugin_def gone_env_def no_id_state_def no_id_env_def
  three_instances_def mixed_env_def


lemma startup_data_source_env:
  "startup data_source_env =
     Inr (\<lparr>provider = 1\<rparr>, data_source_state, [s3_addr DataResourceMode ''d''],
          [InstallProviderCall ''aws'' ''2.43.0'', LaunchPlugin ''.terradozer/aws'' False,
           ConfigureCall 1 \<lparr>conf_Config = ObjectVal [(''region'', StringVal ''us-west-2'')]\<rparr>,
           GetStateCall ''terraform.tfstate''])"
  by (simp add: run_defs s3_defs)

section \<open>The claims\<close>

subsection \<open>C1: what the patch does to each attribute\<close>

text \<open>
  C1.  For an object payload the patch should set every boolean attribute named
  \<^verbatim>\<open>force_destroy\<close> or \<^verbatim>\<open>force_detach_policies\<close> to true and pass every other attribute
  through unchanged, an attribute with one of those names but a type other than boolean
  included.  The loop copies an attribute only in the \<^verbatim>\<open>else\<close> branch of the test on the
  name; under a force-destroy name the inner \<^verbatim>\<open>if\<close> on the type has no \<^verbatim>\<open>else\<close>, so such an
  attribute is not copied at all.  For the payload with \<^verbatim>\<open>id = "b"\<close> and the string
  \<^verbatim>\<open>force_destroy = "yes"\<close> the result has the attribute \<^verbatim>\<open>id\<close> only.
\<close>

theorem enableForceDestroyAttributes_drops_non_bool:
  "Type (StringVal ''yes'') \<noteq> cty_Bool \<and>
   enableForceDestroyAttributes
     (ObjectVal [(''id'', StringVal ''b''), (''force_destroy'', StringVal ''yes'')]) =
   Inr (ObjectVal [(''id'', StringVal ''b'')])"
  by (simp add: enableForceDestroyAttributes_def CanIterateElements_def)

subsection \<open>C2: the prior state of the apply request\<close>

text \<open>
  C2.  A Destroy that is not a dry run should send an apply request whose prior state is
  the patched refreshed state, with a null planned state and a null config.  The run of
  \<open>s3_env\<close> deletes the bucket \<open>b\<close>, read back with \<^verbatim>\<open>force_destroy = false\<close>:
  \<^verbatim>\<open>DeleteResource\<close> goes through \<^verbatim>\<open>applyResourceChange\<close>, which sends \<^verbatim>\<open>readResp.NewState\<close>
  as it is, so the one apply request of the run has \<^verbatim>\<open>force_destroy = false\<close> in its prior
  state.  The patch of that state has \<^verbatim>\<open>force_destroy = true\<close>, and \<^verbatim>\<open>destroy\<close>, the other
  function that builds the request, sends the patched state.  Planned state and config
  are null in both.
\<close>

theorem DeleteResource_sends_unpatched_state:
  "apply_calls (events (mainExitCode s3_env)) =
     [(1, \<lparr>apply_TypeName = ''aws_s3_bucket'',
           apply_PriorState =
             ObjectVal [(''id'', StringVal ''b''), (''force_destroy'', BoolVal False)],
           apply_PlannedState = NullVal DynamicPseudoType,
           apply_Config = NullVal DynamicPseudoType,
           apply_PlannedPrivate = []\<rparr>)] \<and>
   enableForceDestroyAttributes
     (ObjectVal [(''id'', StringVal ''b''), (''force_destroy'', BoolVal False)]) =
     Inr (ObjectVal [(''id'', StringVal ''b''), (''force_destroy'', BoolVal True)]) \<and>
   destroy s3_env \<lparr>provider = 1\<rparr> ''aws_s3_bucket''
     (ObjectVal [(''id'', StringVal ''b''), (''force_destroy'', BoolVal False)]) [] =
     Inr (\<lparr>apply_NewState = NullVal DynamicPseudoType, apply_Private = [],
            apply_Diagnostics = []\<rparr>,
          [ApplyResourceChangeCall 1
             \<lparr>apply_TypeName = ''aws_s3_bucket'',
              apply_PriorState =
                ObjectVal [(''id'', StringVal ''b''), (''force_destroy'', BoolVal True)],
              apply_PlannedState = NullVal DynamicPseudoType,
              apply_Config = NullVal DynamicPseudoType,
              apply_PlannedPrivate = []\<rparr>])"
  by (simp add: run_defs s3_defs destroy_def enableForceDestroyAttributes_def
      CanIterateElements_def)

subsection \<open>C3: a failure of one instance does not stop the others\<close>




subsection \<open>C4: instances that are not managed\<close>

text \<open>
  C4, as amended.  The loop decodes the resource ID of an instance with a current object
  before it looks at the mode.  An instance that is not managed and whose ID can be
  decoded (or that has no current object) is skipped with no effect at all: the loop
  gives the same result, events and count, as on the list without these instances.  An
  instance that is not managed and whose ID cannot be decoded ends the run with exit
  status 1 and no total.
\<close>

theorem non_managed_instances:
  "resInstancesLoop E p state addrs s =
     resInstancesLoop E p state
       (filter (\<lambda>a. Mode a = ManagedResourceMode \<or> bad_id state a) addrs) s \<and>
   (startup E = Inr (p, state, resInstances, tr3) \<longrightarrow> a \<in> set resInstances \<longrightarrow>
    Mode a \<noteq> ManagedResourceMode \<longrightarrow> bad_id state a \<longrightarrow>
      exit_status (mainExitCode E) = 1 \<and> total_deleted (mainExitCode E) = None)"
proof (intro conjI impI)
  show "resInstancesLoop E p state addrs s =
     resInstancesLoop E p state
       (filter (\<lambda>a. Mode a = ManagedResourceMode \<or> bad_id state a) addrs) s"
    by (rule resInstancesLoop_skips)
next
  assume st: "startup E = Inr (p, state, resInstances, tr3)" and "a \<in> set resInstances"
    and "bad_id state a"
  then have "\<exists>a \<in> set resInstances. bad_id state a" by blast
  from run_aborts [OF st this]
  show "exit_status (mainExitCode E) = 1" and "total_deleted (mainExitCode E) = None"
    by auto
qed

theorem non_managed_instances_witness:
  "Mode (s3_addr DataResourceMode ''d'') \<noteq> ManagedResourceMode \<and>
   bad_id data_source_state (s3_addr DataResourceMode ''d'') \<and>
   exit_status (mainExitCode data_source_env) = 1 \<and>
   total_deleted (mainExitCode data_source_env) = None \<and>
   resInstancesLoop s3_env \<lparr>provider = 1\<rparr> two_buckets
     [s3_addr DataResourceMode ''a'', s3_addr ManagedResourceMode ''b''] (0, []) =
   resInstancesLoop s3_env \<lparr>provider = 1\<rparr> two_buckets
     [s3_addr ManagedResourceMode ''b''] (0, [])"
proof -
  have m: "Mode (s3_addr DataResourceMode ''d'') \<noteq> ManagedResourceMode"
    by (simp add: s3_addr_def)
  have b: "bad_id data_source_state (s3_addr DataResourceMode ''d'')"
    by (simp add: bad_id_def run_defs s3_defs)
  have f: "filter (\<lambda>a. Mode a = ManagedResourceMode \<or> bad_id two_buckets a)
             [s3_addr DataResourceMode ''a'', s3_addr ManagedResourceMode ''b''] =
           [s3_addr ManagedResourceMode ''b'']"
    by (simp add: bad_id_def run_defs s3_defs)
  from non_managed_instances
    [of data_source_env "\<lparr>provider = 1\<rparr>" data_source_state "[]" "(0, [])"
        "[s3_addr DataResourceMode ''d'']" _ "s3_addr DataResourceMode ''d''"]
    startup_data_source_env m b
  have r: "exit_status (mainExitCode data_source_env) = 1 \<and>
           total_deleted (mainExitCode data_source_env) = None"
    by simp
  from non_managed_instances
    [of s3_env "\<lparr>provider = 1\<rparr>" two_buckets
        "[s3_addr DataResourceMode ''a'', s3_addr ManagedResourceMode ''b'']" "(0, [])"]
    f
  have "resInstancesLoop s3_env \<lparr>provider = 1\<rparr> two_buckets
     [s3_addr DataResourceMode ''a'', s3_addr ManagedResourceMode ''b''] (0, []) =
   resInstancesLoop s3_env \<lparr>provider = 1\<rparr> two_buckets
     [s3_addr ManagedResourceMode ''b''] (0, [])"
    by simp
  with m b r show ?thesis by simp
qed

text \<open>
  C4 as it is written puts the test of the mode first, so that a data source whose
  attributes cannot be decoded would be skipped.  The state of \<open>data_source_env\<close> has one
  instance, the data source \<open>d\<close>, whose attributes are not JSON; the run ends with status 1.
\<close>

theorem data_source_fatal:
  "Mode (s3_addr DataResourceMode ''d'') = DataResourceMode \<and>
   getResourceID (the (data_source_state (s3_addr DataResourceMode ''d''))) = Inl SyntaxError \<and>
   exit_status (mainExitCode data_source_env) = 1 \<and>
   total_deleted (mainExitCode data_source_env) = None"
  by (simp add: run_defs s3_defs)

subsection \<open>C5: when there is no resource ID\<close>




subsection \<open>C6: a dry run\<close>

text \<open>
  C6.  \<^verbatim>\<open>DeleteResource\<close> with \<^verbatim>\<open>dryRun\<close> true returns true for every type, ID and read
  response; all it does is print the line \<^verbatim>\<open>would try to delete resource\<close>, so it makes no
  \<^verbatim>\<open>ApplyResourceChange\<close> call.  In a dry run the inner loop counts one more deleted resource
  for every descriptor whose read succeeds with a state that is not null, which are the
  descriptors it calls \<^verbatim>\<open>DeleteResource\<close> for; and a whole dry run makes no
  \<^verbatim>\<open>ApplyResourceChange\<close> call.
\<close>

theorem dry_run_destroy:
  "DeleteResource E p resType resID readResp True tr =
     (True, tr @ [Stdout (''would try to delete resource (type='' @ resType @
                          '', id='' @ resID @ '')'' @ [CHR 0x0A])]) \<and>
   apply_calls (snd (DeleteResource E p resType resID readResp True tr)) = apply_calls tr \<and>
   (flag_dry E \<longrightarrow>
      fst (importedResourceBody E p resType resID resImp (n, tr)) =
        (if HasErrors (read_Diagnostics (fst (ReadResource E p resImp tr))) \<or>
            IsNull (read_NewState (fst (ReadResource E p resImp tr)))
         then n else n + 1)) \<and>
   (flag_dry E \<longrightarrow> apply_calls (events (mainExitCode E)) = [])"
proof (intro conjI impI)
  show d: "DeleteResource E p resType resID readResp True tr =
     (True, tr @ [Stdout (''would try to delete resource (type='' @ resType @
                          '', id='' @ resID @ '')'' @ [CHR 0x0A])])"
    by (simp add: DeleteResource_def)
  show "apply_calls (snd (DeleteResource E p resType resID readResp True tr)) = apply_calls tr"
    unfolding d by (simp add: calls_append)
next
  assume "flag_dry E"
  then show "fst (importedResourceBody E p resType resID resImp (n, tr)) =
        (if HasErrors (read_Diagnostics (fst (ReadResource E p resImp tr))) \<or>
            IsNull (read_NewState (fst (ReadResource E p resImp tr)))
         then n else n + 1)"
    by (simp add: DeleteResource_def split: prod.splits)
next
  assume "flag_dry E"
  then show "apply_calls (events (mainExitCode E)) = []"
    using run_no_apply [of E] by blast
qed

theorem dry_run_destroy_witness:
  "flag_dry dry_env \<and>
   fst (importedResourceBody dry_env \<lparr>provider = 1\<rparr> ''aws_s3_bucket'' ''b''
          \<lparr>TypeName = ''aws_s3_bucket'', State = bucket ''b'', Private = []\<rparr> (0, [])) = 1 \<and>
   apply_calls (events (mainExitCode dry_env)) = [] \<and>
   total_deleted (mainExitCode dry_env) = Some 1 \<and>
   stdout_lines (events (mainExitCode dry_env)) =
     [''would try to delete resource (type=aws_s3_bucket, id=b)'' @ [CHR 0x0A]]"
proof -
  have dry: "flag_dry dry_env" by (simp add: dry_env_def)
  have rd: "\<not> (HasErrors (read_Diagnostics (fst (ReadResource dry_env \<lparr>provider = 1\<rparr>
                  \<lparr>TypeName = ''aws_s3_bucket'', State = bucket ''b'', Private = []\<rparr> []))) \<or>
               IsNull (read_NewState (fst (ReadResource dry_env \<lparr>provider = 1\<rparr>
                  \<lparr>TypeName = ''aws_s3_bucket'', State = bucket ''b'', Private = []\<rparr> []))))"
    by (simp add: run_defs s3_defs)
  from dry_run_destroy [where E = dry_env and p = "\<lparr>provider = 1\<rparr>"
      and resType = "''aws_s3_bucket''" and resID = "''b''"
      and resImp = "\<lparr>TypeName = ''aws_s3_bucket'', State = bucket ''b'', Private = []\<rparr>"
      and n = 0 and tr = "[]"] dry rd
  have 1: "fst (importedResourceBody dry_env \<lparr>provider = 1\<rparr> ''aws_s3_bucket'' ''b''
          \<lparr>TypeName = ''aws_s3_bucket'', State = bucket ''b'', Private = []\<rparr> (0, [])) = 1"
    and 2: "apply_calls (events (mainExitCode dry_env)) = []"
    by simp_all
  have 3: "total_deleted (mainExitCode dry_env) = Some 1 \<and>
     stdout_lines (events (mainExitCode dry_env)) =
       [''would try to delete resource (type=aws_s3_bucket, id=b)'' @ [CHR 0x0A]]"
    by (simp add: run_defs s3_defs)
  from dry 1 2 3 show ?thesis by simp
qed

subsection \<open>C7: a resource that is already gone\<close>

text \<open>
  C7.  When the new state of the read response for a descriptor is null, the body of the
  inner loop ends with the read: the only event it adds is the \<^verbatim>\<open>ReadResource\<close> call, so
  there is no \<^verbatim>\<open>DeleteResource\<close> for the descriptor (no \<^verbatim>\<open>ApplyResourceChange\<close> call and no
  line printed), and the count is the one it started with.  With a plugin that answers
  every read with a null state, a whole run applies no change, prints nothing and, if it
  reaches its end, reports 0 deleted resources.
\<close>

theorem already_gone:
  "(IsNull (read_NewState (fst (ReadResource E p resImp tr))) \<longrightarrow>
      importedResourceBody E p resType resID resImp (n, tr) =
        (n, tr @ [ReadResourceCall (provider p)
                    \<lparr>read_TypeName = TypeName resImp, read_PriorState = State resImp,
                     read_Private = Private resImp\<rparr>])) \<and>
   ((\<forall>h tr req. IsNull (read_NewState (ReadResource_op (plugin E h) tr req))) \<longrightarrow>
      apply_calls (events (mainExitCode E)) = [] \<and>
      stdout_lines (events (mainExitCode E)) = [] \<and>
      (total_deleted (mainExitCode E) = None \<or> total_deleted (mainExitCode E) = Some 0))"
proof (intro conjI impI)
  assume "IsNull (read_NewState (fst (ReadResource E p resImp tr)))"
  then show "importedResourceBody E p resType resID resImp (n, tr) =
        (n, tr @ [ReadResourceCall (provider p)
                    \<lparr>read_TypeName = TypeName resImp, read_PriorState = State resImp,
                     read_Private = Private resImp\<rparr>])"
    using ReadResource_events [of E p resImp tr]
    by (cases "ReadResource E p resImp tr") simp
next
  assume gone: "\<forall>h tr req. IsNull (read_NewState (ReadResource_op (plugin E h) tr req))"
  then show "apply_calls (events (mainExitCode E)) = []"
    using run_no_apply [of E] by blast
  show "stdout_lines (events (mainExitCode E)) = []"
  proof (cases "startup E")
    case (Inl run)
    then show ?thesis using startup_Inl [OF Inl] by (simp add: mainExitCode_def)
  next
    case (Inr x)
    then obtain p' state resInstances tr3 where
      st: "startup E = Inr (p', state, resInstances, tr3)"
      by (cases x) auto
    from run_gone [OF st] gone show ?thesis by blast
  qed
  show "total_deleted (mainExitCode E) = None \<or> total_deleted (mainExitCode E) = Some 0"
  proof (cases "startup E")
    case (Inl run)
    then show ?thesis using startup_Inl [OF Inl] by (simp add: mainExitCode_def)
  next
    case (Inr x)
    then obtain p' state resInstances tr3 where
      st: "startup E = Inr (p', state, resInstances, tr3)"
      by (cases x) auto
    from run_gone [OF st] gone show ?thesis by blast
  qed
qed

theorem already_gone_witness:
  "IsNull (read_NewState (fst (ReadResource s3_env \<lparr>provider = 1\<rparr>
      \<lparr>TypeName = ''aws_s3_bucket'', State = bucket ''g'', Private = []\<rparr> []))) \<and>
   importedResourceBody s3_env \<lparr>provider = 1\<rparr> ''aws_s3_bucket'' ''g''
      \<lparr>TypeName = ''aws_s3_bucket'', State = bucket ''g'', Private = []\<rparr> (0, []) =
     (0, [ReadResourceCall 1
            \<lparr>read_TypeName = ''aws_s3_bucket'', read_PriorState = bucket ''g'',
             read_Private = []\<rparr>]) \<and>
   apply_calls (events (mainExitCode gone_env)) = [] \<and>
   stdout_lines (events (mainExitCode gone_env)) = [] \<and>
   total_deleted (mainExitCode gone_env) = Some 0 \<and>
   length (read_calls (events (mainExitCode gone_env))) = 1"
proof -
  have nl: "IsNull (read_NewState (fst (ReadResource s3_env \<lparr>provider = 1\<rparr>
      \<lparr>TypeName = ''aws_s3_bucket'', State = bucket ''g'', Private = []\<rparr> [])))"
    by (simp add: run_defs s3_defs)
  have gone: "\<forall>h tr req. IsNull (read_NewState (ReadResource_op (plugin gone_env h) tr req))"
    by (simp add: s3_defs)
  from already_gone [where E = s3_env and p = "\<lparr>provider = 1\<rparr>"
      and resImp = "\<lparr>TypeName = ''aws_s3_bucket'', State = bucket ''g'', Private = []\<rparr>"
      and tr = "[]" and resType = "''aws_s3_bucket''" and resID = "''g''" and n = 0] nl
  have 1: "importedResourceBody s3_env \<lparr>provider = 1\<rparr> ''aws_s3_bucket'' ''g''
      \<lparr>TypeName = ''aws_s3_bucket'', State = bucket ''g'', Private = []\<rparr> (0, []) =
     (0, [ReadResourceCall 1
            \<lparr>read_TypeName = ''aws_s3_bucket'', read_PriorState = bucket ''g'',
             read_Private = []\<rparr>])"
    by simp
  from already_gone [where E = gone_env] gone
  have 2: "apply_calls (events (mainExitCode gone_env)) = []"
    and 3: "stdout_lines (events (mainExitCode gone_env)) = []"
    by blast+
  have 4: "total_deleted (mainExitCode gone_env) = Some 0 \<and>
           length (read_calls (events (mainExitCode gone_env))) = 1"
    by (simp add: run_defs s3_defs)
  from nl 1 2 3 4 show ?thesis by simp
qed

subsection \<open>C8: no state file\<close>

text \<open>
  C8, as amended.  \<^verbatim>\<open>mainExitCode\<close> reads the state after it has installed, launched and
  configured the provider.  When \<^verbatim>\<open>getState\<close> fails for the path of the \<^verbatim>\<open>-state\<close> flag, the
  run ends with exit status 1 and no total, it has asked for the installation of the
  provider, it has sent no import, read or apply request and printed nothing; and when the
  installation, the launch and the configuration have succeeded, the events of the run
  are exactly these three and the attempt to read the state, in this order.
\<close>

theorem missing_state_file:
  assumes "getState E (flag_state E) = Inl err"
  shows "exit_status (mainExitCode E) = 1 \<and> total_deleted (mainExitCode E) = None \<and>
         install_calls (events (mainExitCode E)) = [(''aws'', ''2.43.0'')] \<and>
         import_calls (events (mainExitCode E)) = [] \<and>
         read_calls (events (mainExitCode E)) = [] \<and>
         apply_calls (events (mainExitCode E)) = [] \<and>
         stdout_lines (events (mainExitCode E)) = [] \<and>
         (\<not> HasErrors (fst (snd (InstallProvider E ''aws'' ''2.43.0''))) \<and>
          snd (snd (InstallProvider E ''aws'' ''2.43.0'')) = None \<and>
          providerFactory E (Path (fst (InstallProvider E ''aws'' ''2.43.0''))) (flag_debug E) =
            Inr h \<and>
          \<not> HasErrors (conf_Diagnostics (Configure_op (plugin E h)
               [InstallProviderCall ''aws'' ''2.43.0'',
                LaunchPlugin (Path (fst (InstallProvider E ''aws'' ''2.43.0''))) (flag_debug E)]
               \<lparr>conf_Config = awsProviderConfig E\<rparr>)) \<longrightarrow>
          events (mainExitCode E) =
            [InstallProviderCall ''aws'' ''2.43.0'',
             LaunchPlugin (Path (fst (InstallProvider E ''aws'' ''2.43.0''))) (flag_debug E),
             ConfigureCall h \<lparr>conf_Config = awsProviderConfig E\<rparr>,
             GetStateCall (flag_state E)])"
proof -
  from startup_no_state [OF assms] obtain run where st: "startup E = Inl run" by blast
  then have m: "mainExitCode E = run" by (simp add: mainExitCode_def)
  have ev: "\<not> HasErrors (fst (snd (InstallProvider E ''aws'' ''2.43.0''))) \<and>
          snd (snd (InstallProvider E ''aws'' ''2.43.0'')) = None \<and>
          providerFactory E (Path (fst (InstallProvider E ''aws'' ''2.43.0''))) (flag_debug E) =
            Inr h \<and>
          \<not> HasErrors (conf_Diagnostics (Configure_op (plugin E h)
               [InstallProviderCall ''aws'' ''2.43.0'',
                LaunchPlugin (Path (fst (InstallProvider E ''aws'' ''2.43.0''))) (flag_debug E)]
               \<lparr>conf_Config = awsProviderConfig E\<rparr>)) \<longrightarrow>
          events run =
            [InstallProviderCall ''aws'' ''2.43.0'',
             LaunchPlugin (Path (fst (InstallProvider E ''aws'' ''2.43.0''))) (flag_debug E),
             ConfigureCall h \<lparr>conf_Config = awsProviderConfig E\<rparr>,
             GetStateCall (flag_state E)]"
    using st assms
    by (auto simp: startup_def newTerraformProvider_def configure_def Let_def
        split: prod.splits sum.splits if_splits)
  show ?thesis unfolding m using startup_Inl [OF st] ev by simp
qed

theorem missing_state_file_witness:
  "getState no_state_env (flag_state no_state_env) = Inl ''no such file or directory'' \<and>
   exit_status (mainExitCode no_state_env) = 1 \<and>
   total_deleted (mainExitCode no_state_env) = None \<and>
   events (mainExitCode no_state_env) =
     [InstallProviderCall ''aws'' ''2.43.0'', LaunchPlugin ''.terradozer/aws'' False,
      ConfigureCall 1 \<lparr>conf_Config = ObjectVal [(''region'', StringVal ''us-west-2'')]\<rparr>,
      GetStateCall ''terraform.tfstate'']"
proof -
  have g: "getState no_state_env (flag_state no_state_env) = Inl ''no such file or directory''"
    by (simp add: s3_defs)
  from missing_state_file [OF g, where h = 1] g show ?thesis
    by (simp add: s3_defs HasErrors_def)
qed

text \<open>
  C8 as it is written has no provider installed or launched when the state file is
  missing.  In the run of \<open>no_state_env\<close>, where reading the state fails, the plugin has
  been installed, launched and configured before the state is read.
\<close>

theorem provider_launched_before_state:
  "getState no_state_env (flag_state no_state_env) = Inl ''no such file or directory'' \<and>
   exit_status (mainExitCode no_state_env) = 1 \<and>
   install_calls (events (mainExitCode no_state_env)) = [(''aws'', ''2.43.0'')] \<and>
   launches (events (mainExitCode no_state_env)) = [(''.terradozer/aws'', False)] \<and>
   length (configure_calls (events (mainExitCode no_state_env))) = 1"
  by (simp add: run_defs s3_defs)

subsection \<open>C9: values the patch cannot iterate\<close>




subsection \<open>C10: the one provider\<close>

text \<open>
  C10, as amended.  Every run asks once for the installation of a provider, and that is
  the provider \<^verbatim>\<open>aws\<close> with the version constraint \<^verbatim>\<open>2.43.0\<close>.  When the installation
  succeeds the run launches one plugin, the installed one, and when the launch succeeds
  it configures that plugin once; otherwise it launches, or configures, nothing.  Every
  call of the \<^verbatim>\<open>Provider\<close> interface in the run (configure, import, read, apply) goes to
  the plugin that was launched.  None of this depends on the state: a run with any other
  answers of \<^verbatim>\<open>getState\<close> and \<^verbatim>\<open>lookupAllResourceInstanceAddrs\<close> installs, launches and
  configures the same.
\<close>

theorem single_provider:
  "install_calls (events (mainExitCode E)) = [(''aws'', ''2.43.0'')] \<and>
   launches (events (mainExitCode E)) =
     (if HasErrors (fst (snd (InstallProvider E ''aws'' ''2.43.0''))) \<or>
         snd (snd (InstallProvider E ''aws'' ''2.43.0'')) \<noteq> None then []
      else [(Path (fst (InstallProvider E ''aws'' ''2.43.0'')), flag_debug E)]) \<and>
   configure_calls (events (mainExitCode E)) =
     (if HasErrors (fst (snd (InstallProvider E ''aws'' ''2.43.0''))) \<or>
         snd (snd (InstallProvider E ''aws'' ''2.43.0'')) \<noteq> None then []
      else case providerFactory E (Path (fst (InstallProvider E ''aws'' ''2.43.0'')))
                  (flag_debug E) of
             Inl e \<Rightarrow> []
           | Inr h \<Rightarrow> [(h, \<lparr>conf_Config = awsProviderConfig E\<rparr>)]) \<and>
   (\<forall>ev \<in> set (events (mainExitCode E)). \<forall>h. handle_of ev = Some h \<longrightarrow>
      providerFactory E (Path (fst (InstallProvider E ''aws'' ''2.43.0''))) (flag_debug E) =
        Inr h) \<and>
   install_calls (events (mainExitCode
       (E\<lparr>getState := g, lookupAllResourceInstanceAddrs := l\<rparr>))) =
     install_calls (events (mainExitCode E)) \<and>
   launches (events (mainExitCode
       (E\<lparr>getState := g, lookupAllResourceInstanceAddrs := l\<rparr>))) =
     launches (events (mainExitCode E)) \<and>
   configure_calls (events (mainExitCode
       (E\<lparr>getState := g, lookupAllResourceInstanceAddrs := l\<rparr>))) =
     configure_calls (events (mainExitCode E))"
proof -
  let ?E' = "E\<lparr>getState := g, lookupAllResourceInstanceAddrs := l\<rparr>"
  have f: "InstallProvider ?E' = InstallProvider E" "providerFactory ?E' = providerFactory E"
    "flag_debug ?E' = flag_debug E" "awsProviderConfig ?E' = awsProviderConfig E"
    by simp_all
  note a = run_provider_calls [of E]
  note b = run_provider_calls [of ?E', unfolded f]
  from a have a1: "install_calls (events (mainExitCode E)) = [(''aws'', ''2.43.0'')]"
    and a2: "launches (events (mainExitCode E)) =
     (if HasErrors (fst (snd (InstallProvider E ''aws'' ''2.43.0''))) \<or>
         snd (snd (InstallProvider E ''aws'' ''2.43.0'')) \<noteq> None then []
      else [(Path (fst (InstallProvider E ''aws'' ''2.43.0'')), flag_debug E)])"
    and a3: "configure_calls (events (mainExitCode E)) =
     (if HasErrors (fst (snd (InstallProvider E ''aws'' ''2.43.0''))) \<or>
         snd (snd (InstallProvider E ''aws'' ''2.43.0'')) \<noteq> None then []
      else case providerFactory E (Path (fst (InstallProvider E ''aws'' ''2.43.0'')))
                  (flag_debug E) of
             Inl e \<Rightarrow> []
           | Inr h \<Rightarrow> [(h, \<lparr>conf_Config = awsProviderConfig E\<rparr>)])"
    and a4: "\<forall>ev \<in> set (events (mainExitCode E)). \<forall>h. handle_of ev = Some h \<longrightarrow>
      providerFactory E (Path (fst (InstallProvider E ''aws'' ''2.43.0''))) (flag_debug E) =
        Inr h"
    by blast+
  from b have b1: "install_calls (events (mainExitCode ?E')) = [(''aws'', ''2.43.0'')]"
    and b2: "launches (events (mainExitCode ?E')) =
     (if HasErrors (fst (snd (InstallProvider E ''aws'' ''2.43.0''))) \<or>
         snd (snd (InstallProvider E ''aws'' ''2.43.0'')) \<noteq> None then []
      else [(Path (fst (InstallProvider E ''aws'' ''2.43.0'')), flag_debug E)])"
    and b3: "configure_calls (events (mainExitCode ?E')) =
     (if HasErrors (fst (snd (InstallProvider E ''aws'' ''2.43.0''))) \<or>
         snd (snd (InstallProvider E ''aws'' ''2.43.0'')) \<noteq> None then []
      else case providerFactory E (Path (fst (InstallProvider E ''aws'' ''2.43.0'')))
                  (flag_debug E) of
             Inl e \<Rightarrow> []
           | Inr h \<Rightarrow> [(h, \<lparr>conf_Config = awsProviderConfig E\<rparr>)])"
    by blast+
  have c1: "install_calls (events (mainExitCode ?E')) = install_calls (events (mainExitCode E))"
    using a1 b1 by (rule ssubst)
  have c2: "launches (events (mainExitCode ?E')) = launches (events (mainExitCode E))"
    using a2 b2 by (rule ssubst)
  have c3: "configure_calls (events (mainExitCode ?E')) =
            configure_calls (events (mainExitCode E))"
    using a3 b3 by (rule ssubst)
  from a1 a2 a3 a4 c1 c2 c3 show ?thesis by blast
qed

theorem single_provider_witness:
  "install_calls (events (mainExitCode s3_env)) = [(''aws'', ''2.43.0'')] \<and>
   launches (events (mainExitCode s3_env)) = [(''.terradozer/aws'', False)] \<and>
   configure_calls (events (mainExitCode s3_env)) =
     [(1, \<lparr>conf_Config = ObjectVal [(''region'', StringVal ''us-west-2'')]\<rparr>)] \<and>
   map fst (import_calls (events (mainExitCode s3_env))) = [1, 1] \<and>
   map fst (read_calls (events (mainExitCode s3_env))) = [1] \<and>
   map fst (apply_calls (events (mainExitCode s3_env))) = [1]"
proof -
  from single_provider [of s3_env]
  have 1: "install_calls (events (mainExitCode s3_env)) = [(''aws'', ''2.43.0'')] \<and>
     launches (events (mainExitCode s3_env)) = [(''.terradozer/aws'', False)] \<and>
     configure_calls (events (mainExitCode s3_env)) =
       [(1, \<lparr>conf_Config = ObjectVal [(''region'', StringVal ''us-west-2'')]\<rparr>)]"
    by (simp add: s3_env_def HasErrors_def)
  have 2: "map fst (import_calls (events (mainExitCode s3_env))) = [1, 1] \<and>
     map fst (read_calls (events (mainExitCode s3_env))) = [1] \<and>
     map fst (apply_calls (events (mainExitCode s3_env))) = [1]"
    by (simp add: run_defs s3_defs)
  from 1 2 show ?thesis by simp
qed

text \<open>
  C10 as it is written has every run install, launch and configure a provider.  In the
  run of \<open>no_install_env\<close> the installer finds no plugin: the run ends with status 1 and
  has launched and configured nothing.
\<close>

theorem failed_install_launches_nothing:
  "snd (snd (InstallProvider no_install_env ''aws'' ''2.43.0'')) =
     Some ''no provider exists with the given name'' \<and>
   exit_status (mainExitCode no_install_env) = 1 \<and>
   install_calls (events (mainExitCode no_install_env)) = [(''aws'', ''2.43.0'')] \<and>
   launches (events (mainExitCode no_install_env)) = [] \<and>
   configure_calls (events (mainExitCode no_install_env)) = []"
  by (simp add: run_defs s3_defs)


end
